theory Spec2Isabelle
  imports Complex_Main "HOL-Library.Sublist"
begin

section \<open>Python values and strings\<close>

text \<open>
  The prompt analyzer of \<^verbatim>\<open>src/core/prompt_analyzer.py\<close> works on Python strings and on
  the untyped structure that \<^verbatim>\<open>json.loads\<close> returns. A string is a list of characters, each
  read as one code point in the range U+0000 to U+00FF. A Python float is modelled by the
  rational number it is written as; every intermediate score of the analyzer is a multiple of
  one tenth, so no tie of the final rounding can occur. The floats that are no numbers
  (\<^verbatim>\<open>NaN\<close>, \<^verbatim>\<open>Infinity\<close>) are left out: they fail every range check of the validator.
  A dictionary is the list of its items; \<^verbatim>\<open>json.loads\<close> never returns one key twice, the
  theorems hold for every list.
\<close>

datatype json =
    JNull
  | JBool bool
  | JInt int
  | JFloat rat
  | JStr string
  | JList "json list"
  | JObj "(string \<times> json) list"

datatype error = TypeError | AttributeError | ServiceError

text \<open>\<^verbatim>\<open>str.isspace\<close> on the code points below 256.\<close>

definition whitespace_chars :: "char list" where
  "whitespace_chars =
     [CHR 0x09, CHR 0x0A, CHR 0x0B, CHR 0x0C, CHR 0x0D, CHR 0x1C, CHR 0x1D, CHR 0x1E, CHR 0x1F,
      CHR 0x20, CHR 0x85, CHR 0xA0]"

definition isspace :: "char \<Rightarrow> bool" where
  "isspace c = (c \<in> set whitespace_chars)"

definition isdigit :: "char \<Rightarrow> bool" where
  "isdigit c = (c \<in> set ''0123456789'')"

text \<open>\<^verbatim>\<open>str.lower\<close> on the code points below 256: the ASCII capitals and the Latin-1
  capitals U+00C0 to U+00DE (without the multiplication sign U+00D7) move up by 32.\<close>

definition upper_chars :: "char list" where
  "upper_chars = ''ABCDEFGHIJKLMNOPQRSTUVWXYZ'' @
     [CHR 0xC0, CHR 0xC1, CHR 0xC2, CHR 0xC3, CHR 0xC4, CHR 0xC5, CHR 0xC6, CHR 0xC7,
      CHR 0xC8, CHR 0xC9, CHR 0xCA, CHR 0xCB, CHR 0xCC, CHR 0xCD, CHR 0xCE, CHR 0xCF,
      CHR 0xD0, CHR 0xD1, CHR 0xD2, CHR 0xD3, CHR 0xD4, CHR 0xD5, CHR 0xD6,
      CHR 0xD8, CHR 0xD9, CHR 0xDA, CHR 0xDB, CHR 0xDC, CHR 0xDD, CHR 0xDE]"

definition lower_chars :: "char list" where
  "lower_chars = ''abcdefghijklmnopqrstuvwxyz'' @
     [CHR 0xE0, CHR 0xE1, CHR 0xE2, CHR 0xE3, CHR 0xE4, CHR 0xE5, CHR 0xE6, CHR 0xE7,
      CHR 0xE8, CHR 0xE9, CHR 0xEA, CHR 0xEB, CHR 0xEC, CHR 0xED, CHR 0xEE, CHR 0xEF,
      CHR 0xF0, CHR 0xF1, CHR 0xF2, CHR 0xF3, CHR 0xF4, CHR 0xF5, CHR 0xF6,
      CHR 0xF8, CHR 0xF9, CHR 0xFA, CHR 0xFB, CHR 0xFC, CHR 0xFD, CHR 0xFE]"

definition lower_char :: "char \<Rightarrow> char" where
  "lower_char c = (case map_of (zip upper_chars lower_chars) c of None \<Rightarrow> c | Some d \<Rightarrow> d)"

definition py_lower :: "string \<Rightarrow> string" where
  "py_lower s = map lower_char s"

text \<open>\<^verbatim>\<open>sub in s\<close> for two strings: \<open>sub\<close> starts at some position of \<open>s\<close>.\<close>

fun contains :: "string \<Rightarrow> string \<Rightarrow> bool" where
  "contains sub [] = (sub = [])"
| "contains sub (c # cs) = (prefix sub (c # cs) \<or> contains sub cs)"

text \<open>\<^verbatim>\<open>s.split()\<close>: the maximal runs of characters that are not whitespace. The first
  argument is the word read so far.\<close>

fun split_acc :: "string \<Rightarrow> string \<Rightarrow> string list" where
  "split_acc cur [] = (if cur = [] then [] else [cur])"
| "split_acc cur (c # cs) =
     (if isspace c then (if cur = [] then split_acc [] cs else cur # split_acc [] cs)
      else split_acc (cur @ [c]) cs)"

definition py_split :: "string \<Rightarrow> string list" where
  "py_split s = split_acc [] s"

text \<open>\<^verbatim>\<open>s.strip()\<close>: whitespace removed at both ends.\<close>

definition py_strip :: "string \<Rightarrow> string" where
  "py_strip s = rev (dropWhile isspace (rev (dropWhile isspace s)))"

text \<open>\<^verbatim>\<open>re.findall(r'\d+', s)\<close>: the maximal runs of digits.\<close>

fun findall_digits_acc :: "string \<Rightarrow> string \<Rightarrow> string list" where
  "findall_digits_acc cur [] = (if cur = [] then [] else [cur])"
| "findall_digits_acc cur (c # cs) =
     (if isdigit c then findall_digits_acc (cur @ [c]) cs
      else (if cur = [] then findall_digits_acc [] cs else cur # findall_digits_acc [] cs))"

definition findall_digits :: "string \<Rightarrow> string list" where
  "findall_digits s = findall_digits_acc [] s"

text \<open>\<^verbatim>\<open>re.split(r'[.!?]+', s)\<close>: the pieces between the maximal runs of sentence
  punctuation; empty pieces are kept. The flag says that the previous character belonged to a
  run.\<close>

definition is_sentence_end :: "char \<Rightarrow> bool" where
  "is_sentence_end c = (c \<in> set ''.!?'')"

fun split_sentences_acc :: "string \<Rightarrow> bool \<Rightarrow> string \<Rightarrow> string list" where
  "split_sentences_acc cur inrun [] = [cur]"
| "split_sentences_acc cur inrun (c # cs) =
     (if is_sentence_end c
      then (if inrun then split_sentences_acc [] True cs else cur # split_sentences_acc [] True cs)
      else split_sentences_acc (cur @ [c]) False cs)"

definition split_sentences :: "string \<Rightarrow> string list" where
  "split_sentences s = split_sentences_acc [] False s"

text \<open>\<^verbatim>\<open>sum(1 for word in words if word in text)\<close>: how many entries of the lexicon occur
  in the text.\<close>

definition count_matches :: "string list \<Rightarrow> string \<Rightarrow> nat" where
  "count_matches ws text = length (filter (\<lambda>word. contains word text) ws)"

text \<open>\<^verbatim>\<open>round(x, 1)\<close>: the nearest multiple of one tenth, a tie going to the even one.\<close>

definition py_round1 :: "rat \<Rightarrow> rat" where
  "py_round1 x =
     (let y = x * 10; f = \<lfloor>y\<rfloor>; d = y - of_int f in
      if d < 1 / 2 then of_int f / 10
      else if 1 / 2 < d then of_int (f + 1) / 10
      else if even f then of_int f / 10 else of_int (f + 1) / 10)"

section \<open>Lexical feature scorers\<close>

text \<open>
  The scorers add and subtract exact rationals where the code accumulates doubles. The clamp,
  the stored score \<^verbatim>\<open>round(score, 1)\<close> and the stored overall score are the same in
  both. The unrounded goal score can differ by one unit in the last place (the code has
  5.999999999999999 where the sum is 6, and 6.999999999999999 where it is 7), which moves
  the comparisons \<^verbatim>\<open>goal < 6\<close> and \<^verbatim>\<open>goal >= 7\<close> of the feedback synthesizer: at such
  a prompt the sentences about the goal in the lists of the code and of this model differ.
  No theorem below speaks of which sentences the lists hold.
\<close>

definition calculate_clarity_score :: "string \<Rightarrow> rat" where
  "calculate_clarity_score prompt =
     (let word_count = length (py_split prompt);
          score = (if word_count < 5 then 3
                   else if word_count < 15 then 5
                   else if word_count < 50 then 7
                   else 8);
          vague_words = [''thing'', ''stuff'', ''something'', ''anything'', ''maybe'', ''perhaps'',
                         ''might'', ''kinda'', ''sorta''];
          vague_count = count_matches vague_words (py_lower prompt);
          score = score - of_nat vague_count * 1;
          clear_words = [''create'', ''write'', ''analyze'', ''explain'', ''describe'', ''list'',
                         ''compare'', ''summarize''];
          clear_count = count_matches clear_words (py_lower prompt);
          score = score + of_nat clear_count * (1 / 2);
          score = (if contains ''?'' prompt then score + 1 / 2 else score)
      in max 1 (min 10 score))"

definition calculate_specificity_score :: "string \<Rightarrow> rat" where
  "calculate_specificity_score prompt =
     (let word_count = length (py_split prompt);
          score = (if word_count < 10 then 3
                   else if word_count < 30 then 5
                   else 7);
          numbers = findall_digits prompt;
          score = score + min (of_nat (length numbers) * (8 / 10)) 2;
          format_words = [''json'', ''csv'', ''markdown'', ''html'', ''pdf'', ''bullet points'',
                          ''numbered list'', ''table'', ''report'', ''essay''];
          format_count = count_matches (map py_lower format_words) (py_lower prompt);
          score = score + min (of_nat format_count * 1) 2;
          domain_words = [''business'', ''technical'', ''academic'', ''marketing'', ''sales'',
                          ''finance'', ''education'', ''health''];
          domain_count = count_matches (map py_lower domain_words) (py_lower prompt);
          score = score + min (of_nat domain_count * (1 / 2)) (3 / 2);
          vague_requests = [''help me'', ''can you'', ''please do'', ''make it good'',
                            ''do something'', ''fix this''];
          vague_count = count_matches vague_requests (py_lower prompt);
          score = score - of_nat vague_count * (3 / 2)
      in max 1 (min 10 score))"

definition calculate_context_score :: "string \<Rightarrow> rat" where
  "calculate_context_score prompt =
     (let word_count = length (py_split prompt);
          score = (if word_count < 8 then 2
                   else if word_count < 20 then 4
                   else if word_count < 50 then 6
                   else 8);
          context_words = [''background'', ''context'', ''situation'', ''purpose'', ''goal'',
                           ''because'', ''since'', ''for'', ''I need'', ''I want''];
          context_count = count_matches (map py_lower context_words) (py_lower prompt);
          score = score + min (of_nat context_count * (8 / 10)) 2;
          personal_words = [''I am'', ''my'', ''our'', ''we are'', ''company'', ''project'',
                            ''team''];
          personal_count = count_matches (map py_lower personal_words) (py_lower prompt);
          score = score + min (of_nat personal_count * (3 / 10)) 1
      in max 1 (min 10 score))"

definition calculate_constraint_score :: "string \<Rightarrow> rat" where
  "calculate_constraint_score prompt =
     (let score = 4;
          format_instructions = [''format as'', ''write in'', ''use style'', ''include'',
                                 ''structure'', ''organize'', ''make it''];
          format_count = count_matches format_instructions (py_lower prompt);
          score = score + min (of_nat format_count * 1) 3;
          length_specs = [''words'', ''characters'', ''pages'', ''paragraphs'', ''sentences'',
                          ''bullet points'', ''brief'', ''detailed'', ''long'', ''short''];
          length_count = count_matches length_specs (py_lower prompt);
          score = score + min (of_nat length_count * (8 / 10)) 2;
          style_specs = [''tone'', ''style'', ''formal'', ''casual'', ''professional'',
                         ''friendly'', ''technical'', ''simple'', ''advanced''];
          style_count = count_matches style_specs (py_lower prompt);
          score = score + min (of_nat style_count * (6 / 10)) 2;
          audience_specs = [''for'', ''audience'', ''beginner'', ''expert'', ''student'',
                            ''client'', ''manager''];
          audience_count = count_matches audience_specs (py_lower prompt);
          score = score + min (of_nat audience_count * (1 / 2)) 1
      in max 1 (min 10 score))"

definition calculate_goal_score :: "string \<Rightarrow> rat" where
  "calculate_goal_score prompt =
     (let score = 4;
          action_words = [''create'', ''write'', ''analyze'', ''design'', ''develop'', ''build'',
                          ''generate'', ''produce'', ''make'', ''explain'', ''describe''];
          action_count = count_matches action_words (py_lower prompt);
          score = score + min (of_nat action_count * 1) 3;
          outcome_words = [''result'', ''output'', ''deliverable'', ''final'', ''end goal'',
                           ''objective'', ''want'', ''need''];
          outcome_count = count_matches (map py_lower outcome_words) (py_lower prompt);
          score = score + min (of_nat outcome_count * (8 / 10)) 2;
          intent_words = [''show'', ''tell'', ''find'', ''solve'', ''fix'', ''improve'',
                          ''optimize'', ''compare''];
          intent_count = count_matches intent_words (py_lower prompt);
          score = score + min (of_nat intent_count * (6 / 10)) (3 / 2);
          unclear_words = [''somehow'', ''whatever'', ''anything'', ''something'', ''help'',
                           ''please''];
          unclear_count = count_matches unclear_words (py_lower prompt);
          score = score - of_nat unclear_count * (8 / 10)
      in max 1 (min 10 score))"

section \<open>Feedback synthesizer\<close>

definition identify_strengths ::
  "string \<Rightarrow> rat \<Rightarrow> rat \<Rightarrow> rat \<Rightarrow> rat \<Rightarrow> rat \<Rightarrow> string list" where
  "identify_strengths prompt clarity specificity context constraints goal =
     (let strengths = [];
          strengths = (if 7 \<le> clarity
                       then strengths @ [''Clear and unambiguous language''] else strengths);
          strengths = (if 7 \<le> specificity
                       then strengths @ [''Specific requirements and details provided'']
                       else strengths);
          strengths = (if 7 \<le> context
                       then strengths @ [''Sufficient background context''] else strengths);
          strengths = (if 7 \<le> constraints
                       then strengths @ [''Well-defined formatting and style constraints'']
                       else strengths);
          strengths = (if 7 \<le> goal
                       then strengths @ [''Clear goal and desired outcome''] else strengths);
          word_count = length (py_split prompt);
          strengths = (if 50 < word_count
                       then strengths @ [''Comprehensive and detailed prompt''] else strengths);
          strengths = (if list_ex (\<lambda>word. contains word (py_lower prompt))
                            [''include'', ''format'', ''structure'']
                       then strengths @ [''Good structural guidance provided''] else strengths);
          strengths = (if strengths = []
                       then strengths @ [''Basic prompt structure in place''] else strengths)
      in take 5 strengths)"

definition identify_weaknesses ::
  "string \<Rightarrow> rat \<Rightarrow> rat \<Rightarrow> rat \<Rightarrow> rat \<Rightarrow> rat \<Rightarrow> string list" where
  "identify_weaknesses prompt clarity specificity context constraints goal =
     (let weaknesses = [];
          weaknesses = (if clarity < 6
                        then weaknesses @ [''Language could be clearer and less ambiguous'']
                        else weaknesses);
          weaknesses = (if specificity < 6
                        then weaknesses @ [''Needs more specific requirements and details'']
                        else weaknesses);
          weaknesses = (if context < 6
                        then weaknesses @ [''Lacks sufficient background context'']
                        else weaknesses);
          weaknesses = (if constraints < 6
                        then weaknesses @ [''Missing clear formatting and style guidelines'']
                        else weaknesses);
          weaknesses = (if goal < 6
                        then weaknesses @ [''Desired outcome could be more clearly defined'']
                        else weaknesses);
          word_count = length (py_split prompt);
          weaknesses = (if word_count < 15
                        then weaknesses @ [''Prompt is too brief and lacks detail'']
                        else weaknesses);
          vague_words = [''thing'', ''stuff'', ''good'', ''nice'', ''help''];
          weaknesses = (if list_ex (\<lambda>word. contains word (py_lower prompt)) vague_words
                        then weaknesses @ [''Contains vague language that could be more specific'']
                        else weaknesses);
          weaknesses = (if weaknesses = []
                        then weaknesses @ [''Minor improvements possible in overall clarity'']
                        else weaknesses)
      in take 5 weaknesses)"

text \<open>The loop of \<^verbatim>\<open>_generate_suggestions\<close> over the weaknesses: the body of the loop
  first, then the loop; the last argument is the list built so far.\<close>

definition suggestion_step :: "string \<Rightarrow> string list \<Rightarrow> string list" where
  "suggestion_step weakness suggestions =
     (if contains ''clearer'' weakness \<or> contains ''ambiguous'' weakness
      then suggestions @ [''Replace vague terms with specific, concrete language'']
      else if contains ''specific'' weakness \<or> contains ''details'' weakness
      then suggestions @ [''Add specific numbers, formats, or measurable criteria'']
      else if contains ''context'' weakness
      then suggestions @ [''Provide background information about your situation or goals'']
      else if contains ''formatting'' weakness \<or> contains ''guidelines'' weakness
      then suggestions @ [''Specify desired output format (length, style, structure)'']
      else if contains ''outcome'' weakness \<or> contains ''goal'' weakness
      then suggestions @ [''Clearly state what success looks like for this task'']
      else if contains ''brief'' weakness \<or> contains ''detail'' weakness
      then suggestions @ [''Expand the prompt with more context and requirements'']
      else if contains ''vague'' weakness
      then suggestions @ [''Replace general terms with specific, actionable language'']
      else suggestions)"

fun suggestions_loop :: "string list \<Rightarrow> string list \<Rightarrow> string list" where
  "suggestions_loop [] suggestions = suggestions"
| "suggestions_loop (weakness # rest) suggestions =
     suggestions_loop rest (suggestion_step weakness suggestions)"

definition generate_suggestions :: "string \<Rightarrow> string list \<Rightarrow> string list" where
  "generate_suggestions prompt weaknesses =
     (let suggestions = suggestions_loop weaknesses [];
          suggestions = (if suggestions = []
                         then suggestions @
                           [''Consider adding more specific details about your requirements'',
                            ''Include context about your intended audience or use case'',
                            ''Specify the desired format and length of the output'']
                         else suggestions)
      in take 5 suggestions)"

text \<open>The template of \<^verbatim>\<open>_improve_prompt\<close>: a line break before the prompt; after it an
  empty line, the body of the request and a last line break.\<close>

definition template_head :: string where
  "template_head = ''\<newline>''"

definition template_body :: string where
  "template_body =
     ''Please provide a comprehensive response that includes:\<newline>'' @
     ''- Clear explanations with specific examples\<newline>'' @
     ''- Structured format with headings or bullet points\<newline>'' @
     ''- Relevant context and background information\<newline>'' @
     ''- Actionable insights or recommendations\<newline>'' @
     ''- Sources or references where applicable\<newline>'' @
     ''\<newline>'' @
     ''Target length: 200-500 words\<newline>'' @
     ''Tone: Professional and informative''"

definition template_tail :: string where
  "template_tail = ''\<newline>\<newline>'' @ template_body @ ''\<newline>''"

definition formatting_request :: string where
  "formatting_request =
     ''\<newline>\<newline>Please format your response with clear headings and structure.''"

definition length_target :: string where
  "length_target = '' Aim for a comprehensive response of 300-500 words.''"

definition improve_prompt :: "string \<Rightarrow> string list \<Rightarrow> string" where
  "improve_prompt prompt weaknesses =
     (if length (py_split prompt) < 15
      then py_strip (template_head @ prompt @ template_tail)
      else
        (let improved = prompt;
             improved = (if \<not> contains ''format'' (py_lower prompt)
                         then improved @ formatting_request else improved);
             improved = (if \<not> list_ex (\<lambda>word. contains word (py_lower prompt))
                                [''words'', ''length'', ''brief'', ''detailed'']
                         then improved @ length_target else improved)
         in improved))"

section \<open>Heuristic analyzer\<close>

definition rule_based_analysis :: "string \<Rightarrow> json" where
  "rule_based_analysis prompt =
     (let clarity_score = calculate_clarity_score prompt;
          specificity_score = calculate_specificity_score prompt;
          context_score = calculate_context_score prompt;
          constraint_score = calculate_constraint_score prompt;
          goal_score = calculate_goal_score prompt;
          overall_score =
            (clarity_score + specificity_score + context_score + constraint_score + goal_score) / 5;
          strengths = identify_strengths prompt clarity_score specificity_score context_score
                        constraint_score goal_score;
          weaknesses = identify_weaknesses prompt clarity_score specificity_score context_score
                         constraint_score goal_score;
          suggestions = generate_suggestions prompt weaknesses;
          improved_prompt = improve_prompt prompt weaknesses
      in JObj
           [(''scores'', JObj
               [(''clarity'', JFloat (py_round1 clarity_score)),
                (''specificity'', JFloat (py_round1 specificity_score)),
                (''context'', JFloat (py_round1 context_score)),
                (''constraints'', JFloat (py_round1 constraint_score)),
                (''goal_orientation'', JFloat (py_round1 goal_score)),
                (''overall'', JFloat (py_round1 overall_score))]),
            (''analysis'', JObj
               [(''strengths'', JList (map JStr strengths)),
                (''weaknesses'', JList (map JStr weaknesses)),
                (''suggestions'', JList (map JStr suggestions))]),
            (''improved_prompt'', JStr improved_prompt),
            (''confidence'', JFloat (7 / 10))])"

section \<open>External analysis response validator\<close>

text \<open>Dictionaries keep their items in insertion order; \<^verbatim>\<open>d.get(key, default)\<close> and
  \<^verbatim>\<open>d[key] = value\<close> on the list of items.\<close>

definition dict_get :: "(string \<times> json) list \<Rightarrow> string \<Rightarrow> json \<Rightarrow> json" where
  "dict_get items key dflt = (case map_of items key of None \<Rightarrow> dflt | Some v \<Rightarrow> v)"

fun dict_set :: "string \<Rightarrow> json \<Rightarrow> (string \<times> json) list \<Rightarrow> (string \<times> json) list" where
  "dict_set key v [] = [(key, v)]"
| "dict_set key v (kv # items) =
     (if fst kv = key then (key, v) # items else kv # dict_set key v items)"

text \<open>\<^verbatim>\<open>x.get(key, default)\<close> on any value: only a dictionary has the method.\<close>

fun py_get :: "json \<Rightarrow> string \<Rightarrow> json \<Rightarrow> error + json" where
  "py_get (JObj items) key dflt = Inr (dict_get items key dflt)"
| "py_get _ key dflt = Inl AttributeError"

text \<open>\<^verbatim>\<open>key in x\<close> for a string \<open>key\<close>: a key of a dictionary, an element of a list, a
  substring of a string; any other value is not a container.\<close>

fun py_in :: "string \<Rightarrow> json \<Rightarrow> error + bool" where
  "py_in key (JObj items) = Inr (key \<in> set (map fst items))"
| "py_in key (JList xs) = Inr (JStr key \<in> set xs)"
| "py_in key (JStr s) = Inr (contains key s)"
| "py_in key _ = Inl TypeError"

text \<open>\<^verbatim>\<open>all(key in x for key in keys)\<close>, stopping at the first key that is missing.\<close>

fun all_in :: "string list \<Rightarrow> json \<Rightarrow> error + bool" where
  "all_in [] x = Inr True"
| "all_in (key # keys) x =
     (case py_in key x of
        Inl e \<Rightarrow> Inl e
      | Inr b \<Rightarrow> if b then all_in keys x else Inr False)"

text \<open>\<^verbatim>\<open>isinstance(x, (int, float))\<close>: \<^verbatim>\<open>bool\<close> is a subclass of \<^verbatim>\<open>int\<close>, with
  \<^verbatim>\<open>True\<close> equal to 1 and \<^verbatim>\<open>False\<close> equal to 0.\<close>

fun is_number :: "json \<Rightarrow> bool" where
  "is_number (JBool b) = True"
| "is_number (JInt i) = True"
| "is_number (JFloat r) = True"
| "is_number _ = False"

fun num_val :: "json \<Rightarrow> rat" where
  "num_val (JBool b) = (if b then 1 else 0)"
| "num_val (JInt i) = of_int i"
| "num_val (JFloat r) = r"
| "num_val _ = 0"

text \<open>\<^verbatim>\<open>not x\<close> is the negation of the truth value of \<open>x\<close>.\<close>

fun truthy :: "json \<Rightarrow> bool" where
  "truthy JNull = False"
| "truthy (JBool b) = b"
| "truthy (JInt i) = (i \<noteq> 0)"
| "truthy (JFloat r) = (r \<noteq> 0)"
| "truthy (JStr s) = (s \<noteq> [])"
| "truthy (JList xs) = (xs \<noteq> [])"
| "truthy (JObj items) = (items \<noteq> [])"

definition required_keys :: "string list" where
  "required_keys = [''scores'', ''analysis'', ''improved_prompt'', ''confidence'']"

definition score_keys :: "string list" where
  "score_keys = [''clarity'', ''specificity'', ''context'', ''constraints'', ''goal_orientation'',
                 ''overall'']"

definition analysis_keys :: "string list" where
  "analysis_keys = [''strengths'', ''weaknesses'', ''suggestions'']"

text \<open>The body of the loop over \<^verbatim>\<open>scores.items()\<close>: a list of one element is replaced
  by that element, in the dictionary too; the result says whether the score is a number from
  1 to 10.\<close>

fun unwrap_single :: "json \<Rightarrow> json option" where
  "unwrap_single (JList [x]) = Some x"
| "unwrap_single _ = None"

definition score_in_range :: "json \<Rightarrow> bool" where
  "score_in_range score = (is_number score \<and> 1 \<le> num_val score \<and> num_val score \<le> 10)"

definition check_score ::
  "string \<Rightarrow> json \<Rightarrow> (string \<times> json) list \<Rightarrow> bool \<times> (string \<times> json) list" where
  "check_score key score scores =
     (case unwrap_single score of
        Some x \<Rightarrow> (score_in_range x, dict_set key x scores)
      | None \<Rightarrow> (score_in_range score, scores))"

text \<open>The loop: the first argument is what remains of the items, the second the dictionary
  \<^verbatim>\<open>scores\<close> as the loop has changed it so far.\<close>

fun check_scores ::
  "(string \<times> json) list \<Rightarrow> (string \<times> json) list \<Rightarrow> bool \<times> (string \<times> json) list" where
  "check_scores [] scores = (True, scores)"
| "check_scores (item # rest) scores =
     (case check_score (fst item) (snd item) scores of
        (ok, scores') \<Rightarrow> if ok then check_scores rest scores' else (False, scores'))"

definition confidence_in_range :: "json \<Rightarrow> bool" where
  "confidence_in_range confidence =
     (is_number confidence \<and> 0 \<le> num_val confidence \<and> num_val confidence \<le> 1)"

text \<open>\<^verbatim>\<open>_validate_ai_response\<close> returns its verdict, and the response as the loop has
  left it: the dictionary of the scores is changed in place.\<close>

definition validate_ai_response :: "json \<Rightarrow> error + (bool \<times> json)" where
  "validate_ai_response response =
     (case all_in required_keys response of
        Inl e \<Rightarrow> Inl e
      | Inr has_main \<Rightarrow>
          if \<not> has_main then Inr (False, response)
          else
            (case py_get response ''scores'' (JObj []) of
               Inl e \<Rightarrow> Inl e
             | Inr scores \<Rightarrow>
                 (case all_in score_keys scores of
                    Inl e \<Rightarrow> Inl e
                  | Inr has_scores \<Rightarrow>
                      if \<not> has_scores then Inr (False, response)
                      else
                        (case py_get response ''analysis'' (JObj []) of
                           Inl e \<Rightarrow> Inl e
                         | Inr analysis \<Rightarrow>
                             (case all_in analysis_keys analysis of
                                Inl e \<Rightarrow> Inl e
                              | Inr has_analysis \<Rightarrow>
                                  if \<not> has_analysis then Inr (False, response)
                                  else
                                    (case (response, scores) of
                                       (JObj entries, JObj items) \<Rightarrow>
                                         (case check_scores items items of
                                            (ok, items') \<Rightarrow>
                                              (let entries' = dict_set ''scores'' (JObj items') entries;
                                                   confidence = dict_get entries' ''confidence'' (JInt 0)
                                               in if \<not> ok then Inr (False, JObj entries')
                                                  else if \<not> confidence_in_range confidence
                                                  then Inr (False, JObj entries')
                                                  else Inr (True, JObj entries')))
                                     | _ \<Rightarrow> Inl AttributeError))))))"

text \<open>\<^verbatim>\<open>_is_valid_ai_analysis\<close>: \<^verbatim>\<open>x == 5.0\<close> is false on a value that is no number,
  \<^verbatim>\<open>5.5 <= x\<close> raises on one.\<close>

definition py_eq_num :: "json \<Rightarrow> rat \<Rightarrow> bool" where
  "py_eq_num x r = (is_number x \<and> num_val x = r)"

definition suspicious_overall :: "json \<Rightarrow> error + bool" where
  "suspicious_overall overall_score =
     (if py_eq_num overall_score 5 then Inr True
      else if \<not> is_number overall_score then Inl TypeError
      else Inr (55 / 10 \<le> num_val overall_score \<and> num_val overall_score \<le> 57 / 10))"

definition is_valid_ai_analysis :: "json \<Rightarrow> error + bool" where
  "is_valid_ai_analysis ai_analysis =
     (if \<not> truthy ai_analysis then Inr False
      else
        (case py_get ai_analysis ''scores'' (JObj []) of
           Inl e \<Rightarrow> Inl e
         | Inr scores \<Rightarrow>
             (case py_get scores ''overall'' (JInt 0) of
                Inl e \<Rightarrow> Inl e
              | Inr overall_score \<Rightarrow>
                  (case suspicious_overall overall_score of
                     Inl e \<Rightarrow> Inl e
                   | Inr suspicious \<Rightarrow>
                       if suspicious
                       then
                         (case py_get ai_analysis ''confidence'' (JInt 0) of
                            Inl e \<Rightarrow> Inl e
                          | Inr confidence \<Rightarrow>
                              if py_eq_num confidence (7 / 10) then Inr False else Inr True)
                       else Inr True))))"

section \<open>Analysis arbiter\<close>

text \<open>The instruction templates of \<^verbatim>\<open>_load_meta_prompts\<close>.\<close>

definition meta_prompt_comprehensive :: string where
  \<open>meta_prompt_comprehensive =
     ''\<newline>'' @
     ''You are an expert prompt engineering consultant. Analyze the following prompt and provide scores from 1-10 for each dimension.\<newline>'' @
     ''\<newline>'' @
     ''IMPORTANT: Return scores as NUMBERS, not arrays. Example: "clarity": 7, NOT "clarity": [7]\<newline>'' @
     ''\<newline>'' @
     ''Respond ONLY with valid JSON in this exact format:\<newline>'' @
     ''{\<newline>'' @
     ''    "scores": {\<newline>'' @
     ''        "clarity": 7,\<newline>'' @
     ''        "specificity": 5, \<newline>'' @
     ''        "context": 4,\<newline>'' @
     ''        "constraints": 3,\<newline>'' @
     ''        "goal_orientation": 8,\<newline>'' @
     ''        "overall": 6\<newline>'' @
     ''    },\<newline>'' @
     ''    "analysis": {\<newline>'' @
     ''        "strengths": ["strength1", "strength2", "strength3"],\<newline>'' @
     ''        "weaknesses": ["weakness1", "weakness2", "weakness3"], \<newline>'' @
     ''        "suggestions": ["suggestion1", "suggestion2", "suggestion3"]\<newline>'' @
     ''    },\<newline>'' @
     ''    "improved_prompt": "Your improved version of the prompt here",\<newline>'' @
     ''    "confidence": 0.8\<newline>'' @
     ''}\<newline>'' @
     ''\<newline>'' @
     ''PROMPT TO ANALYZE:\<newline>'' @
     ''''\<close>

definition meta_prompt_creative :: string where
  \<open>meta_prompt_creative =
     ''\<newline>'' @
     ''            Focus on creative and innovative aspects of the prompt...\<newline>'' @
     ''            ''\<close>

definition meta_prompt_technical :: string where
  \<open>meta_prompt_technical =
     ''\<newline>'' @
     ''            Evaluate technical precision and implementation clarity...\<newline>'' @
     ''            ''\<close>

definition meta_prompts :: "string \<Rightarrow> string option" where
  "meta_prompts =
     [''comprehensive'' \<mapsto> meta_prompt_comprehensive,
      ''creative'' \<mapsto> meta_prompt_creative,
      ''technical'' \<mapsto> meta_prompt_technical]"

text \<open>\<^verbatim>\<open>re.sub(r'```json\s*|\s*```', '', s)\<close>: at each position, from left to right, an
  opening fence with the whitespace after it, or else a closing fence with the whitespace
  before it, is removed.\<close>

function strip_fences :: "string \<Rightarrow> string" where
  "strip_fences [] = []"
| "strip_fences (c # cs) =
     (if prefix ''```json'' (c # cs)
      then strip_fences (dropWhile isspace (drop 7 (c # cs)))
      else if prefix ''```'' (dropWhile isspace (c # cs))
      then strip_fences (drop 3 (dropWhile isspace (c # cs)))
      else c # strip_fences cs)"
  by pat_completeness auto
termination
proof (relation "measure length")
  show "wf (measure length)" by simp
next
  fix c :: char and cs :: string
  assume "prefix ''```json'' (c # cs)"
  have "length (dropWhile isspace (drop 7 (c # cs))) \<le> length (drop 7 (c # cs))"
    by (rule length_dropWhile_le)
  then show "(dropWhile isspace (drop 7 (c # cs)), c # cs) \<in> measure length"
    by simp
next
  fix c :: char and cs :: string
  assume "prefix ''```'' (dropWhile isspace (c # cs))"
  then have "3 \<le> length (dropWhile isspace (c # cs))"
    using prefix_length_le by fastforce
  moreover have "length (dropWhile isspace (c # cs)) \<le> length (c # cs)"
    by (rule length_dropWhile_le)
  ultimately show "(drop 3 (dropWhile isspace (c # cs)), c # cs) \<in> measure length"
    by simp
next
  fix c :: char and cs :: string
  show "(cs, c # cs) \<in> measure length" by simp
qed

text \<open>\<^verbatim>\<open>re.search(r'\{.*\}', s, re.DOTALL)\<close>: from the first opening brace to the last
  closing brace after it; without such a span the text stays as it is.\<close>

definition extract_json :: "string \<Rightarrow> string" where
  "extract_json s =
     (let from_brace = dropWhile (\<lambda>c. c \<noteq> CHR ''{'') s
      in if CHR ''}'' \<in> set from_brace
         then rev (dropWhile (\<lambda>c. c \<noteq> CHR ''}'') (rev from_brace))
         else s)"

text \<open>\<^verbatim>\<open>_get_ai_analysis\<close>. The generation capability \<open>generate_response\<close> (the service
  manager and the service behind it) and \<^verbatim>\<open>json.loads\<close> are parameters: the first returns
  text or raises, the second returns the parsed value or raises \<^verbatim>\<open>JSONDecodeError\<close>
  (\<open>None\<close>). Every exception is caught and gives \<open>None\<close>; so does the call of
  \<^verbatim>\<open>parsed_response.keys()\<close> in the debug output, which raises on anything but a
  dictionary.\<close>

definition get_ai_analysis ::
  "(string \<Rightarrow> error + string) \<Rightarrow> (string \<Rightarrow> json option) \<Rightarrow> string \<Rightarrow> string \<Rightarrow> json option" where
  "get_ai_analysis generate_response json_loads prompt analysis_type =
     (case meta_prompts analysis_type of
        None \<Rightarrow> None
      | Some meta_prompt \<Rightarrow>
          (case generate_response (meta_prompt @ prompt) of
             Inl e \<Rightarrow> None
           | Inr raw_response \<Rightarrow>
               (let clean_response = py_strip (strip_fences raw_response);
                    clean_response = extract_json clean_response
                in case json_loads clean_response of
                     None \<Rightarrow> None
                   | Some parsed_response \<Rightarrow>
                       (case parsed_response of
                          JObj entries \<Rightarrow>
                            (case validate_ai_response parsed_response of
                               Inl e \<Rightarrow> None
                             | Inr (ok, parsed_response') \<Rightarrow>
                                 if ok then Some parsed_response' else None)
                        | _ \<Rightarrow> None))))"

definition assess_complexity :: "string \<Rightarrow> string" where
  "assess_complexity prompt =
     (let word_count = length (py_split prompt)
      in if word_count < 20 then ''Simple''
         else if word_count < 50 then ''Moderate''
         else if word_count < 100 then ''Complex''
         else ''Advanced'')"

text \<open>The two dataclasses. Python does not check the annotated types of the entries: what an
  accepted external response delivers is stored as it is.\<close>

record AnalysisMetrics =
  clarity_score :: json
  specificity_score :: json
  context_score :: json
  constraint_score :: json
  goal_orientation_score :: json
  overall_score :: json
  word_count :: nat
  sentence_count :: nat
  complexity_level :: string

record AnalysisResult =
  metrics :: AnalysisMetrics
  strengths :: json
  weaknesses :: json
  suggestions :: json
  improved_prompt :: json
  confidence_level :: json

text \<open>The condition of the branch of \<^verbatim>\<open>comprehensive_analysis\<close>:
  \<^verbatim>\<open>not ai_analysis or not self._is_valid_ai_analysis(ai_analysis)\<close>.\<close>

definition fallback_condition :: "json option \<Rightarrow> error + bool" where
  "fallback_condition ai_analysis =
     (case ai_analysis of
        None \<Rightarrow> Inr True
      | Some a \<Rightarrow>
          if \<not> truthy a then Inr True
          else (case is_valid_ai_analysis a of
                  Inl e \<Rightarrow> Inl e
                | Inr valid \<Rightarrow> Inr (\<not> valid)))"

text \<open>The second half of \<^verbatim>\<open>comprehensive_analysis\<close>, which combines the chosen analysis
  with the statistics of the prompt. Each \<^verbatim>\<open>.get\<close> raises \<^verbatim>\<open>AttributeError\<close> on a
  value that is no dictionary.\<close>

definition combine_results :: "string \<Rightarrow> json \<Rightarrow> error + AnalysisResult" where
  "combine_results prompt ai_analysis =
     (case ai_analysis of
        JObj entries \<Rightarrow>
          (case dict_get entries ''scores'' (JObj []) of
             JObj score_items \<Rightarrow>
               (case dict_get entries ''analysis'' (JObj []) of
                  JObj analysis_items \<Rightarrow>
                    Inr \<lparr>metrics =
                           \<lparr>clarity_score = dict_get score_items ''clarity'' (JInt 5),
                            specificity_score = dict_get score_items ''specificity'' (JInt 5),
                            context_score = dict_get score_items ''context'' (JInt 5),
                            constraint_score = dict_get score_items ''constraints'' (JInt 5),
                            goal_orientation_score =
                              dict_get score_items ''goal_orientation'' (JInt 5),
                            overall_score = dict_get score_items ''overall'' (JInt 5),
                            word_count = length (py_split prompt),
                            sentence_count = length (split_sentences (py_strip prompt)),
                            complexity_level = assess_complexity prompt\<rparr>,
                         strengths = dict_get analysis_items ''strengths'' (JList []),
                         weaknesses = dict_get analysis_items ''weaknesses'' (JList []),
                         suggestions = dict_get analysis_items ''suggestions'' (JList []),
                         improved_prompt = dict_get entries ''improved_prompt'' (JStr prompt),
                         confidence_level = dict_get entries ''confidence'' (JFloat (1 / 2))\<rparr>
                | _ \<Rightarrow> Inl AttributeError)
           | _ \<Rightarrow> Inl AttributeError)
      | _ \<Rightarrow> Inl AttributeError)"

definition comprehensive_analysis ::
  "(string \<Rightarrow> error + string) \<Rightarrow> (string \<Rightarrow> json option) \<Rightarrow> string \<Rightarrow> error + AnalysisResult" where
  "comprehensive_analysis generate_response json_loads prompt =
     (let ai_analysis = get_ai_analysis generate_response json_loads prompt ''comprehensive''
      in case fallback_condition ai_analysis of
           Inl e \<Rightarrow> Inl e
         | Inr fallback \<Rightarrow>
             if fallback then combine_results prompt (rule_based_analysis prompt)
             else (case ai_analysis of
                     Some a \<Rightarrow> combine_results prompt a
                   | None \<Rightarrow> combine_results prompt (rule_based_analysis prompt)))"

section \<open>The clarity score as the specification words it\<close>

text \<open>
  The specification subtracts 1.0 and adds 0.5 ``per occurrence'' of a word of the two
  lexicons. \<open>count_occurrences\<close> counts the positions of the text at which a word starts;
  \<open>spec_clarity_score\<close> is the score computed with these counts, to be compared with
  \<open>calculate_clarity_score\<close>.
\<close>

fun count_occurrences :: "string \<Rightarrow> string \<Rightarrow> nat" where
  "count_occurrences sub [] = 0"
| "count_occurrences sub (c # cs) =
     (if prefix sub (c # cs) then 1 else 0) + count_occurrences sub cs"

definition spec_clarity_score :: "string \<Rightarrow> rat" where
  "spec_clarity_score prompt =
     (let n = length (py_split prompt);
          base = (if n < 5 then 3 else if n < 15 then 5 else if n < 50 then 7 else 8);
          vague = sum_list (map (\<lambda>w. count_occurrences w (py_lower prompt))
                    [''thing'', ''stuff'', ''something'', ''anything'', ''maybe'', ''perhaps'',
                     ''might'', ''kinda'', ''sorta'']);
          clear = sum_list (map (\<lambda>w. count_occurrences w (py_lower prompt))
                    [''create'', ''write'', ''analyze'', ''explain'', ''describe'', ''list'',
                     ''compare'', ''summarize''])
      in max 1 (min 10 (base - of_nat vague * 1 + of_nat clear * (1 / 2)
                        + (if CHR ''?'' \<in> set prompt then 1 / 2 else 0))))"

section \<open>Sample responses\<close>

text \<open>
  The external response of the specification's end-to-end scenario, with the value of the
  specificity score, the overall score, the analysis and the confidence left open.
\<close>

definition sample_response :: "json \<Rightarrow> json \<Rightarrow> json \<Rightarrow> json \<Rightarrow> json" where
  "sample_response specificity overall analysis confidence =
     JObj
       [(''scores'', JObj
           [(''clarity'', JInt 8),
            (''specificity'', specificity),
            (''context'', JInt 6),
            (''constraints'', JInt 7),
            (''goal_orientation'', JInt 8),
            (''overall'', overall)]),
        (''analysis'', analysis),
        (''improved_prompt'', JStr ''...''),
        (''confidence'', confidence)]"

definition sample_analysis :: "json list \<Rightarrow> json" where
  "sample_analysis strengths_given =
     JObj
       [(''strengths'', JList strengths_given),
        (''weaknesses'', JList [JStr ''y'']),
        (''suggestions'', JList [JStr ''z''])]"

text \<open>The scenario itself: the specificity score arrives as a list of one element.\<close>

definition scenario_response :: json where
  "scenario_response =
     sample_response (JList [JInt 7]) (JFloat (72 / 10)) (sample_analysis [JStr ''x''])
       (JFloat (9 / 10))"

definition scenario_unwrapped :: json where
  "scenario_unwrapped =
     sample_response (JInt 7) (JFloat (72 / 10)) (sample_analysis [JStr ''x''])
       (JFloat (9 / 10))"

text \<open>Overall 6.2 with confidence 0.85, and overall 5.6 with confidence 0.7.\<close>

definition ordinary_response :: json where
  "ordinary_response =
     sample_response (JInt 7) (JFloat (62 / 10)) (sample_analysis [JStr ''x''])
       (JFloat (85 / 100))"

definition disguised_response :: json where
  "disguised_response =
     sample_response (JInt 7) (JFloat (56 / 10)) (sample_analysis [JStr ''x''])
       (JFloat (7 / 10))"

text \<open>Overall 8 with confidence 0.7.\<close>

definition modest_response :: json where
  "modest_response =
     sample_response (JInt 7) (JInt 8) (sample_analysis [JStr ''x'']) (JFloat (7 / 10))"

text \<open>Six strengths.\<close>

definition generous_response :: json where
  "generous_response =
     sample_response (JInt 7) (JFloat (72 / 10))
       (sample_analysis [JStr ''a'', JStr ''b'', JStr ''c'', JStr ''d'', JStr ''e'', JStr ''f''])
       (JFloat (9 / 10))"

text \<open>The analysis as one sentence instead of a dictionary.\<close>

definition prose_response :: json where
  "prose_response =
     sample_response (JInt 7) (JFloat (72 / 10))
       (JStr ''The strengths outweigh the weaknesses; suggestions follow.'') (JFloat (9 / 10))"

text \<open>The analysis as the list of the three names instead of a dictionary.\<close>

definition listed_response :: json where
  "listed_response =
     sample_response (JInt 7) (JFloat (72 / 10))
       (JList [JStr ''strengths'', JStr ''weaknesses'', JStr ''suggestions'']) (JFloat (9 / 10))"

text \<open>Every score the boolean \<^verbatim>\<open>true\<close>.\<close>

definition boolean_scores :: "(string \<times> json) list" where
  "boolean_scores =
     [(''clarity'', JBool True), (''specificity'', JBool True), (''context'', JBool True),
      (''constraints'', JBool True), (''goal_orientation'', JBool True),
      (''overall'', JBool True)]"

definition boolean_response :: json where
  "boolean_response =
     JObj [(''scores'', JObj boolean_scores),
           (''analysis'', sample_analysis [JStr ''x'']),
           (''improved_prompt'', JStr ''...''),
           (''confidence'', JFloat (9 / 10))]"

section \<open>Bounds of the scorers\<close>

lemma clamp_bounds: "1 \<le> max 1 (min 10 (x::rat)) \<and> max 1 (min 10 x) \<le> 10"
  by simp

lemma clarity_bounds: "1 \<le> calculate_clarity_score p \<and> calculate_clarity_score p \<le> 10"
  unfolding calculate_clarity_score_def Let_def by (rule clamp_bounds)

lemma specificity_bounds:
  "1 \<le> calculate_specificity_score p \<and> calculate_specificity_score p \<le> 10"
  unfolding calculate_specificity_score_def Let_def by (rule clamp_bounds)

lemma context_bounds: "1 \<le> calculate_context_score p \<and> calculate_context_score p \<le> 10"
  unfolding calculate_context_score_def Let_def by (rule clamp_bounds)

lemma constraint_bounds:
  "1 \<le> calculate_constraint_score p \<and> calculate_constraint_score p \<le> 10"
  unfolding calculate_constraint_score_def Let_def by (rule clamp_bounds)

lemma goal_bounds: "1 \<le> calculate_goal_score p \<and> calculate_goal_score p \<le> 10"
  unfolding calculate_goal_score_def Let_def by (rule clamp_bounds)

lemma scores_of_empty_prompt:
  "calculate_clarity_score [] = 3"
  "calculate_specificity_score [] = 3"
  "calculate_context_score [] = 2"
  "calculate_constraint_score [] = 4"
  "calculate_goal_score [] = 4"
  by code_simp+

text \<open>
  Claim C2. Each of the five lexical scorers is a total function of the prompt, with no
  failing branch, and its score lies between 1 and 10, for every prompt, the empty one
  included.
\<close>

theorem scorers_in_range:
  "1 \<le> calculate_clarity_score p \<and> calculate_clarity_score p \<le> 10 \<and>
   1 \<le> calculate_specificity_score p \<and> calculate_specificity_score p \<le> 10 \<and>
   1 \<le> calculate_context_score p \<and> calculate_context_score p \<le> 10 \<and>
   1 \<le> calculate_constraint_score p \<and> calculate_constraint_score p \<le> 10 \<and>
   1 \<le> calculate_goal_score p \<and> calculate_goal_score p \<le> 10"
  using clarity_bounds [of p] specificity_bounds [of p] context_bounds [of p]
    constraint_bounds [of p] goal_bounds [of p]
  by simp

theorem scorers_in_range_witness:
  "calculate_clarity_score [] = 3 \<and> calculate_specificity_score [] = 3 \<and>
   calculate_context_score [] = 2 \<and> calculate_constraint_score [] = 4 \<and>
   calculate_goal_score [] = 4 \<and>
   1 \<le> calculate_clarity_score [] \<and> calculate_clarity_score [] \<le> 10 \<and>
   1 \<le> calculate_specificity_score [] \<and> calculate_specificity_score [] \<le> 10 \<and>
   1 \<le> calculate_context_score [] \<and> calculate_context_score [] \<le> 10 \<and>
   1 \<le> calculate_constraint_score [] \<and> calculate_constraint_score [] \<le> 10 \<and>
   1 \<le> calculate_goal_score [] \<and> calculate_goal_score [] \<le> 10"
  using scorers_in_range [of "[]"] by (simp add: scores_of_empty_prompt)

section \<open>The clarity score\<close>

lemma contains_sublist: "contains sub s = sublist sub s"
proof (induction s)
  case Nil
  show ?case by simp
next
  case (Cons c cs)
  show ?case by (simp add: Cons.IH sublist_Cons_right)
qed

lemma contains_single: "contains [c] s = (c \<in> set s)"
  by (induction s) auto

lemma count_matches_card:
  "distinct ws \<Longrightarrow> count_matches ws text = card {w \<in> set ws. sublist w text}"
  unfolding count_matches_def contains_sublist
  by (simp add: distinct_length_filter Int_def conj_commute)

text \<open>
  Claim C6, as stated, fails: the word ``thing'' occurs twice in the prompt below, the
  specification's wording takes 2.0 off the base 5 (and adds 0.5 for ``write''), the code
  takes 1.0 off, because it asks of each word of the lexicon only whether it occurs.
\<close>

theorem clarity_per_occurrence_counterexample:
  "calculate_clarity_score ''write about this thing and that thing'' = 9 / 2 \<and>
   spec_clarity_score ''write about this thing and that thing'' = 7 / 2"
  by code_simp

text \<open>
  Claim C6, amended. The clarity score is the clamp into the interval from 1 to 10 of: the
  base of the word-count bucket (fewer than 5 words give 3, fewer than 15 give 5, fewer than
  50 give 7, otherwise 8), minus 1.0 for each word of the vague lexicon that occurs at least
  once in the lower-cased prompt as a substring, plus 0.5 for each clear action word that
  occurs at least once in it, plus 0.5 if the prompt contains a question mark.
\<close>

theorem clarity_formula:
  "calculate_clarity_score prompt =
     max 1 (min 10
       ((let n = length (py_split prompt)
         in if n < 5 then 3 else if n < 15 then 5 else if n < 50 then 7 else 8)
        - of_nat (card {w \<in> set [''thing'', ''stuff'', ''something'', ''anything'', ''maybe'',
                                  ''perhaps'', ''might'', ''kinda'', ''sorta''].
                        sublist w (py_lower prompt)}) * 1
        + of_nat (card {w \<in> set [''create'', ''write'', ''analyze'', ''explain'', ''describe'',
                                  ''list'', ''compare'', ''summarize''].
                        sublist w (py_lower prompt)}) * (1 / 2)
        + (if CHR ''?'' \<in> set prompt then 1 / 2 else 0)))"
proof -
  have v: "count_matches [''thing'', ''stuff'', ''something'', ''anything'', ''maybe'',
                          ''perhaps'', ''might'', ''kinda'', ''sorta''] (py_lower prompt)
      = card {w \<in> set [''thing'', ''stuff'', ''something'', ''anything'', ''maybe'',
                         ''perhaps'', ''might'', ''kinda'', ''sorta''].
               sublist w (py_lower prompt)}"
    by (rule count_matches_card) simp
  have c: "count_matches [''create'', ''write'', ''analyze'', ''explain'', ''describe'',
                          ''list'', ''compare'', ''summarize''] (py_lower prompt)
      = card {w \<in> set [''create'', ''write'', ''analyze'', ''explain'', ''describe'',
                         ''list'', ''compare'', ''summarize''].
               sublist w (py_lower prompt)}"
    by (rule count_matches_card) simp
  show ?thesis
    unfolding calculate_clarity_score_def Let_def v c contains_single
    by (cases "CHR ''?'' \<in> set prompt") (simp_all only: if_True if_False add_0_right)
qed

lemma clarity_of_example:
  "calculate_clarity_score ''write about this thing and that thing'' = 9 / 2"
  by code_simp

theorem clarity_formula_witness:
  "max 1 (min 10
       ((let n = length (py_split ''write about this thing and that thing'')
         in if n < 5 then 3 else if n < 15 then 5 else if n < 50 then 7 else 8)
        - of_nat (card {w \<in> set [''thing'', ''stuff'', ''something'', ''anything'', ''maybe'',
                                  ''perhaps'', ''might'', ''kinda'', ''sorta''].
                        sublist w (py_lower ''write about this thing and that thing'')}) * 1
        + of_nat (card {w \<in> set [''create'', ''write'', ''analyze'', ''explain'', ''describe'',
                                  ''list'', ''compare'', ''summarize''].
                        sublist w (py_lower ''write about this thing and that thing'')}) * (1 / 2)
        + (if CHR ''?'' \<in> set ''write about this thing and that thing'' then 1 / 2 else 0)))
   = (9 / 2 :: rat)"
  by (rule trans [OF clarity_formula [symmetric] clarity_of_example])

section \<open>Rewriting a prompt twice\<close>

lemma split_acc_length_cong:
  "cur \<noteq> [] \<Longrightarrow> cur' \<noteq> [] \<Longrightarrow> length (split_acc cur s) = length (split_acc cur' s)"
proof (induction s arbitrary: cur cur')
  case Nil
  then show ?case by simp
next
  case (Cons c cs)
  show ?case
  proof (cases "isspace c")
    case True
    with Cons.prems show ?thesis by simp
  next
    case False
    have "length (split_acc (cur @ [c]) cs) = length (split_acc (cur' @ [c]) cs)"
      by (rule Cons.IH) simp_all
    with False show ?thesis by simp
  qed
qed

lemma split_acc_length_mono: "length (split_acc [] s) \<le> length (split_acc cur s)"
proof (induction s arbitrary: cur)
  case Nil
  show ?case by simp
next
  case (Cons c cs)
  show ?case
  proof (cases "isspace c")
    case True
    then show ?thesis by simp
  next
    case False
    have "length (split_acc [c] cs) = length (split_acc (cur @ [c]) cs)"
      by (rule split_acc_length_cong) simp_all
    with False show ?thesis by simp
  qed
qed

lemma split_acc_nonempty: "cur \<noteq> [] \<Longrightarrow> split_acc cur s \<noteq> []"
proof (induction s arbitrary: cur)
  case Nil
  then show ?case by simp
next
  case (Cons c cs)
  show ?case
  proof (cases "isspace c")
    case True
    with Cons.prems show ?thesis by simp
  next
    case False
    have "split_acc (cur @ [c]) cs \<noteq> []" by (rule Cons.IH) simp
    with False show ?thesis by simp
  qed
qed

lemma split_acc_append_right: "length (split_acc [] ys) \<le> length (split_acc cur (xs @ ys))"
proof (induction xs arbitrary: cur)
  case Nil
  show ?case by (simp add: split_acc_length_mono)
next
  case (Cons x xs)
  show ?case
  proof (cases "isspace x")
    case True
    with Cons.IH [of "[]"] show ?thesis by simp
  next
    case False
    with Cons.IH [of "cur @ [x]"] show ?thesis by simp
  qed
qed

lemma split_acc_append_left: "length (split_acc cur xs) \<le> length (split_acc cur (xs @ ys))"
proof (induction xs arbitrary: cur)
  case Nil
  show ?case
  proof (cases "cur = []")
    case True
    then show ?thesis by simp
  next
    case False
    then have "split_acc cur ys \<noteq> []" by (rule split_acc_nonempty)
    then have "1 \<le> length (split_acc cur ys)" by (cases "split_acc cur ys") simp_all
    with False show ?thesis by simp
  qed
next
  case (Cons x xs)
  show ?case
  proof (cases "isspace x")
    case True
    with Cons.IH [of "[]"] show ?thesis by simp
  next
    case False
    with Cons.IH [of "cur @ [x]"] show ?thesis by simp
  qed
qed

lemma word_count_append_left: "length (py_split xs) \<le> length (py_split (xs @ ys))"
  unfolding py_split_def by (rule split_acc_append_left)

lemma word_count_append_right: "length (py_split ys) \<le> length (py_split (xs @ ys))"
  unfolding py_split_def by (rule split_acc_append_right)

lemma contains_lower_append_left:
  "contains sub (py_lower xs) \<Longrightarrow> contains sub (py_lower (xs @ ys))"
  unfolding contains_sublist py_lower_def by (auto simp: sublist_append)

lemma contains_lower_append_right:
  "contains sub (py_lower ys) \<Longrightarrow> contains sub (py_lower (xs @ ys))"
  unfolding contains_sublist py_lower_def by (auto simp: sublist_append)

lemma any_contains_append_left:
  "list_ex (\<lambda>word. contains word (py_lower xs)) ws \<Longrightarrow>
   list_ex (\<lambda>word. contains word (py_lower (xs @ ys))) ws"
  unfolding list_ex_iff by (blast intro: contains_lower_append_left)

lemma py_strip_core:
  assumes "b \<noteq> []" and "\<not> isspace (hd b)" and "\<not> isspace (last b)"
    and w: "\<And>x. x \<in> set w \<Longrightarrow> isspace x"
  shows "\<exists>z. py_strip (a @ b @ w) = z @ b"
proof -
  have b_self: "dropWhile isspace (b @ w) = b @ w"
    using assms(1,2) by (simp add: dropWhile_eq_self_iff)
  obtain z where z: "dropWhile isspace (a @ b @ w) = z @ b @ w"
  proof (cases "\<forall>x\<in>set a. isspace x")
    case True
    then have "dropWhile isspace (a @ b @ w) = [] @ b @ w"
      using b_self by simp
    then show ?thesis by (rule that)
  next
    case False
    then have "dropWhile isspace (a @ b @ w) = dropWhile isspace a @ b @ w"
      by (auto simp: dropWhile_append)
    then show ?thesis by (rule that)
  qed
  have "dropWhile isspace (rev w @ rev b @ rev z) = dropWhile isspace (rev b @ rev z)"
    using w by (intro dropWhile_append2) simp
  also have "\<dots> = rev b @ rev z"
    using assms(1,3) by (simp add: dropWhile_eq_self_iff hd_rev)
  finally have "py_strip (a @ b @ w) = z @ b"
    by (simp add: py_strip_def z)
  then show ?thesis ..
qed

lemma template_body_facts:
  "template_body \<noteq> []"
  "\<not> isspace (hd template_body)"
  "\<not> isspace (last template_body)"
  "15 \<le> length (py_split template_body)"
  "contains ''format'' (py_lower template_body)"
  "contains ''words'' (py_lower template_body)"
  by code_simp+

lemma appended_sentence_facts:
  "contains ''format'' (py_lower formatting_request)"
  "contains ''words'' (py_lower length_target)"
  by code_simp+

lemma newline_isspace: "x \<in> set ''\<newline>'' \<Longrightarrow> isspace x"
  by (simp add: isspace_def whitespace_chars_def)

lemma improve_short_shape:
  assumes short: "length (py_split prompt) < 15"
  shows "\<exists>z. improve_prompt prompt ws = z @ template_body"
proof -
  have "\<exists>z. py_strip ((template_head @ prompt @ ''\<newline>\<newline>'') @ template_body @ ''\<newline>'')
          = z @ template_body"
    using template_body_facts(1,2,3) newline_isspace by (rule py_strip_core)
  moreover have "improve_prompt prompt ws =
      py_strip ((template_head @ prompt @ ''\<newline>\<newline>'') @ template_body @ ''\<newline>'')"
    using short by (simp add: improve_prompt_def template_tail_def)
  ultimately show ?thesis by simp
qed

lemma improve_fixed:
  assumes "15 \<le> length (py_split s)"
    and "contains ''format'' (py_lower s)"
    and "list_ex (\<lambda>word. contains word (py_lower s)) [''words'', ''length'', ''brief'', ''detailed'']"
  shows "improve_prompt s ws = s"
proof -
  have a: "\<not> length (py_split s) < 15" using assms(1) by simp
  show ?thesis
    unfolding improve_prompt_def Let_def
    by (simp only: a assms(2,3) not_True_eq_False not_False_eq_True if_True if_False)
qed

lemma words_any:
  "contains ''words'' (py_lower s) \<Longrightarrow>
   list_ex (\<lambda>word. contains word (py_lower s)) [''words'', ''length'', ''brief'', ''detailed'']"
  unfolding list_ex_Cons_iff by (rule disjI1)

lemma improve_long_shape:
  assumes "\<not> length (py_split prompt) < 15"
  shows "improve_prompt prompt ws =
           (prompt @ (if contains ''format'' (py_lower prompt) then [] else formatting_request))
           @ (if list_ex (\<lambda>word. contains word (py_lower prompt))
                   [''words'', ''length'', ''brief'', ''detailed'']
              then [] else length_target)"
  unfolding improve_prompt_def Let_def
  by (simp only: assms if_False if_not_P if_P append_Nil2 split: if_split) simp

text \<open>
  Claim C9. \<^verbatim>\<open>_improve_prompt\<close> is a function of the prompt alone, and applying it to its
  own output, with any list of weaknesses, returns that output: the template of the short
  branch holds 15 words and more, the word ``format'' and the word ``words'', and each of
  the two sentences of the long branch holds the word whose absence makes the code append it.
\<close>

theorem improve_prompt_idempotent:
  "improve_prompt (improve_prompt prompt ws) ws' = improve_prompt prompt ws"
proof (cases "length (py_split prompt) < 15")
  case True
  then obtain z where z: "improve_prompt prompt ws = z @ template_body"
    using improve_short_shape by blast
  have "length (py_split template_body) \<le> length (py_split (z @ template_body))"
    by (rule word_count_append_right)
  then have "15 \<le> length (py_split (z @ template_body))"
    using template_body_facts(4) by (rule order_trans [rotated])
  moreover have "contains ''format'' (py_lower (z @ template_body))"
    using template_body_facts(5) by (rule contains_lower_append_right)
  moreover have "contains ''words'' (py_lower (z @ template_body))"
    using template_body_facts(6) by (rule contains_lower_append_right)
  then have "list_ex (\<lambda>word. contains word (py_lower (z @ template_body)))
               [''words'', ''length'', ''brief'', ''detailed'']"
    by (rule words_any)
  ultimately have "improve_prompt (z @ template_body) ws' = z @ template_body"
    by (rule improve_fixed)
  then show ?thesis by (simp only: z)
next
  case False
  define A where "A = (if contains ''format'' (py_lower prompt) then [] else formatting_request)"
  define B where "B = (if list_ex (\<lambda>word. contains word (py_lower prompt))
                   [''words'', ''length'', ''brief'', ''detailed'']
              then [] else length_target)"
  have out: "improve_prompt prompt ws = (prompt @ A) @ B"
    unfolding A_def B_def using False by (rule improve_long_shape)
  have "15 \<le> length (py_split prompt)" using False by simp
  also have "\<dots> \<le> length (py_split (prompt @ A))" by (rule word_count_append_left)
  also have "\<dots> \<le> length (py_split ((prompt @ A) @ B))" by (rule word_count_append_left)
  finally have wc: "15 \<le> length (py_split ((prompt @ A) @ B))" .
  have "contains ''format'' (py_lower (prompt @ A))"
  proof (cases "contains ''format'' (py_lower prompt)")
    case True
    then show ?thesis by (rule contains_lower_append_left)
  next
    case False
    then have "A = formatting_request" by (simp add: A_def)
    then show ?thesis
      using appended_sentence_facts(1) by (simp only: contains_lower_append_right)
  qed
  then have fmt: "contains ''format'' (py_lower ((prompt @ A) @ B))"
    by (rule contains_lower_append_left)
  have len: "list_ex (\<lambda>word. contains word (py_lower ((prompt @ A) @ B)))
               [''words'', ''length'', ''brief'', ''detailed'']"
  proof (cases "list_ex (\<lambda>word. contains word (py_lower prompt))
                   [''words'', ''length'', ''brief'', ''detailed'']")
    case True
    then have "list_ex (\<lambda>word. contains word (py_lower (prompt @ A)))
                   [''words'', ''length'', ''brief'', ''detailed'']"
      by (rule any_contains_append_left)
    then show ?thesis by (rule any_contains_append_left)
  next
    case False
    then have "B = length_target" by (simp only: B_def if_False)
    then have "contains ''words'' (py_lower ((prompt @ A) @ B))"
      using appended_sentence_facts(2) by (simp only: contains_lower_append_right)
    then show ?thesis by (rule words_any)
  qed
  have "improve_prompt ((prompt @ A) @ B) ws' = (prompt @ A) @ B"
    using wc fmt len by (rule improve_fixed)
  then show ?thesis by (simp only: out)
qed

lemma improve_of_example:
  "improve_prompt ''fix this'' [] = ''fix this\<newline>\<newline>'' @ template_body"
  by code_simp

theorem improve_prompt_idempotent_witness:
  "improve_prompt (''fix this\<newline>\<newline>'' @ template_body) [''Lacks sufficient background context'']
     = ''fix this\<newline>\<newline>'' @ template_body"
  using improve_prompt_idempotent [of "''fix this''" "[]" "[''Lacks sufficient background context'']"]
  by (simp only: improve_of_example)

section \<open>The result of the heuristic analyzer\<close>

lemma py_round1_bounds:
  assumes "1 \<le> x" and "x \<le> 10"
  shows "1 \<le> py_round1 x \<and> py_round1 x \<le> 10"
proof -
  define f where "f = \<lfloor>x * 10\<rfloor>"
  have lo: "10 \<le> f" unfolding f_def using assms(1) by (simp add: le_floor_iff)
  have hi: "f \<le> 100" unfolding f_def using assms(2) by (simp add: floor_le_iff)
  have fx: "of_int f \<le> x * 10" unfolding f_def by simp
  have low: "(1::rat) \<le> of_int f / 10" using lo by simp
  have high: "(of_int f :: rat) / 10 \<le> 10" using hi by simp
  have low1: "(1::rat) \<le> of_int (f + 1) / 10" using lo by simp
  have high1: "(of_int (f + 1) :: rat) / 10 \<le> 10" if "x * 10 - of_int f \<noteq> 0"
  proof -
    have "f \<noteq> 100"
    proof
      assume "f = 100"
      with fx assms(2) have "x * 10 = of_int f" by simp
      with that show False by simp
    qed
    with hi have "f + 1 \<le> 100" by simp
    then have "(of_int (f + 1) :: rat) \<le> 100" by (simp only: of_int_le_iff [symmetric] of_int_numeral)
    then show ?thesis by simp
  qed
  show ?thesis
    unfolding py_round1_def Let_def f_def [symmetric]
    using low high low1 high1 by (auto split: if_splits)
qed

lemma py_round1_tenths:
  assumes "x * 10 \<in> \<int>"
  shows "py_round1 x = x"
proof -
  from assms obtain k :: int where k: "x * 10 = of_int k" by (rule Ints_cases)
  then have "x = of_int k / 10" by simp
  then show ?thesis by (simp add: py_round1_def Let_def)
qed

lemma tenths_numeral: "(numeral n :: rat) * 10 \<in> \<int>"
  by simp

lemma tenths_add: "a * 10 \<in> \<int> \<Longrightarrow> b * 10 \<in> \<int> \<Longrightarrow> (a + b) * 10 \<in> (\<int> :: rat set)"
  by (simp add: distrib_right)

lemma tenths_diff: "a * 10 \<in> \<int> \<Longrightarrow> b * 10 \<in> \<int> \<Longrightarrow> (a - b) * 10 \<in> (\<int> :: rat set)"
  by (simp add: left_diff_distrib)

lemma tenths_min: "a * 10 \<in> \<int> \<Longrightarrow> b * 10 \<in> \<int> \<Longrightarrow> min a b * 10 \<in> (\<int> :: rat set)"
  by (simp add: min_def)

lemma tenths_max: "a * 10 \<in> \<int> \<Longrightarrow> b * 10 \<in> \<int> \<Longrightarrow> max a b * 10 \<in> (\<int> :: rat set)"
  by (simp add: max_def)

lemma tenths_if:
  "a * 10 \<in> \<int> \<Longrightarrow> b * 10 \<in> \<int> \<Longrightarrow> (if P then a else b) * 10 \<in> (\<int> :: rat set)"
  by simp

lemma tenths_scaled: "c * 10 \<in> \<int> \<Longrightarrow> (of_nat n * c) * 10 \<in> (\<int> :: rat set)"
  by (simp add: mult.assoc)

lemma tenths_consts:
  "(1::rat) * 10 \<in> \<int>" "(1 / 2 :: rat) * 10 \<in> \<int>" "(8 / 10 :: rat) * 10 \<in> \<int>"
  "(3 / 2 :: rat) * 10 \<in> \<int>" "(3 / 10 :: rat) * 10 \<in> \<int>" "(6 / 10 :: rat) * 10 \<in> \<int>"
  by simp_all

lemmas tenths_rules = tenths_max tenths_min tenths_add tenths_diff tenths_if tenths_scaled
  tenths_numeral tenths_consts

lemma clarity_tenths: "calculate_clarity_score p * 10 \<in> \<int>"
  unfolding calculate_clarity_score_def Let_def by (intro tenths_rules)

lemma specificity_tenths: "calculate_specificity_score p * 10 \<in> \<int>"
  unfolding calculate_specificity_score_def Let_def by (intro tenths_rules)

lemma context_tenths: "calculate_context_score p * 10 \<in> \<int>"
  unfolding calculate_context_score_def Let_def by (intro tenths_rules)

lemma constraint_tenths: "calculate_constraint_score p * 10 \<in> \<int>"
  unfolding calculate_constraint_score_def Let_def by (intro tenths_rules)

lemma goal_tenths: "calculate_goal_score p * 10 \<in> \<int>"
  unfolding calculate_goal_score_def Let_def by (intro tenths_rules)

lemma combine_rule_based:
  "combine_results prompt (rule_based_analysis prompt) =
     Inr \<lparr>metrics =
            \<lparr>clarity_score = JFloat (py_round1 (calculate_clarity_score prompt)),
             specificity_score = JFloat (py_round1 (calculate_specificity_score prompt)),
             context_score = JFloat (py_round1 (calculate_context_score prompt)),
             constraint_score = JFloat (py_round1 (calculate_constraint_score prompt)),
             goal_orientation_score = JFloat (py_round1 (calculate_goal_score prompt)),
             overall_score = JFloat (py_round1
               ((calculate_clarity_score prompt + calculate_specificity_score prompt +
                 calculate_context_score prompt + calculate_constraint_score prompt +
                 calculate_goal_score prompt) / 5)),
             word_count = length (py_split prompt),
             sentence_count = length (split_sentences (py_strip prompt)),
             complexity_level = assess_complexity prompt\<rparr>,
          strengths = JList (map JStr
            (identify_strengths prompt (calculate_clarity_score prompt)
               (calculate_specificity_score prompt) (calculate_context_score prompt)
               (calculate_constraint_score prompt) (calculate_goal_score prompt))),
          weaknesses = JList (map JStr
            (identify_weaknesses prompt (calculate_clarity_score prompt)
               (calculate_specificity_score prompt) (calculate_context_score prompt)
               (calculate_constraint_score prompt) (calculate_goal_score prompt))),
          suggestions = JList (map JStr
            (generate_suggestions prompt
               (identify_weaknesses prompt (calculate_clarity_score prompt)
                  (calculate_specificity_score prompt) (calculate_context_score prompt)
                  (calculate_constraint_score prompt) (calculate_goal_score prompt)))),
          improved_prompt = JStr
            (improve_prompt prompt
               (identify_weaknesses prompt (calculate_clarity_score prompt)
                  (calculate_specificity_score prompt) (calculate_context_score prompt)
                  (calculate_constraint_score prompt) (calculate_goal_score prompt))),
          confidence_level = JFloat (7 / 10)\<rparr>"
  unfolding combine_results_def rule_based_analysis_def Let_def dict_get_def
  by simp

lemma fallback_result:
  "fallback_condition (get_ai_analysis gen loads prompt ''comprehensive'') = Inr True \<Longrightarrow>
   comprehensive_analysis gen loads prompt = combine_results prompt (rule_based_analysis prompt)"
  unfolding comprehensive_analysis_def Let_def by simp

lemma meta_prompts_comprehensive:
  "meta_prompts ''comprehensive'' = Some meta_prompt_comprehensive"
  by (simp add: meta_prompts_def)

lemma generation_raises:
  "gen (meta_prompt_comprehensive @ prompt) = Inl e \<Longrightarrow>
   get_ai_analysis gen loads prompt ''comprehensive'' = None"
  by (simp add: get_ai_analysis_def meta_prompts_comprehensive)

lemma failing_service_falls_back:
  "fallback_condition (get_ai_analysis (\<lambda>text. Inl ServiceError) loads prompt ''comprehensive'')
     = Inr True"
  by (simp add: generation_raises fallback_condition_def)

text \<open>
  Claim C7. When the heuristic fallback runs, the five dimension scores of the result are
  the scores of the five scorers, the overall score is their unweighted mean rounded to one
  decimal place, and it lies between 1 and 10.
\<close>

theorem heuristic_overall_score:
  assumes "fallback_condition (get_ai_analysis gen loads prompt ''comprehensive'') = Inr True"
  shows "\<exists>r. comprehensive_analysis gen loads prompt = Inr r \<and>
     clarity_score (metrics r) = JFloat (calculate_clarity_score prompt) \<and>
     specificity_score (metrics r) = JFloat (calculate_specificity_score prompt) \<and>
     context_score (metrics r) = JFloat (calculate_context_score prompt) \<and>
     constraint_score (metrics r) = JFloat (calculate_constraint_score prompt) \<and>
     goal_orientation_score (metrics r) = JFloat (calculate_goal_score prompt) \<and>
     is_number (overall_score (metrics r)) \<and>
     num_val (overall_score (metrics r)) =
       py_round1 ((num_val (clarity_score (metrics r)) + num_val (specificity_score (metrics r)) +
                   num_val (context_score (metrics r)) + num_val (constraint_score (metrics r)) +
                   num_val (goal_orientation_score (metrics r))) / 5) \<and>
     1 \<le> num_val (overall_score (metrics r)) \<and> num_val (overall_score (metrics r)) \<le> 10"
proof -
  let ?mean = "(calculate_clarity_score prompt + calculate_specificity_score prompt +
                calculate_context_score prompt + calculate_constraint_score prompt +
                calculate_goal_score prompt) / 5"
  have "5 \<le> ?mean * 5" and "?mean * 5 \<le> 50"
    using clarity_bounds [of prompt] specificity_bounds [of prompt] context_bounds [of prompt]
      constraint_bounds [of prompt] goal_bounds [of prompt]
    by simp_all
  then have "1 \<le> ?mean" and "?mean \<le> 10" by simp_all
  then have bounds: "1 \<le> py_round1 ?mean \<and> py_round1 ?mean \<le> 10"
    by (rule py_round1_bounds)
  have rounded:
    "py_round1 (calculate_clarity_score prompt) = calculate_clarity_score prompt"
    "py_round1 (calculate_specificity_score prompt) = calculate_specificity_score prompt"
    "py_round1 (calculate_context_score prompt) = calculate_context_score prompt"
    "py_round1 (calculate_constraint_score prompt) = calculate_constraint_score prompt"
    "py_round1 (calculate_goal_score prompt) = calculate_goal_score prompt"
    by (rule py_round1_tenths, rule clarity_tenths specificity_tenths context_tenths
          constraint_tenths goal_tenths)+
  have "comprehensive_analysis gen loads prompt
          = combine_results prompt (rule_based_analysis prompt)"
    using assms by (rule fallback_result)
  then show ?thesis
    using bounds by (simp add: combine_rule_based rounded)
qed

theorem heuristic_overall_score_witness:
  "fallback_condition
     (get_ai_analysis (\<lambda>text. Inl ServiceError) (\<lambda>text. None) ''fix this'' ''comprehensive'')
     = Inr True \<and>
   (\<exists>r. comprehensive_analysis (\<lambda>text. Inl ServiceError) (\<lambda>text. None) ''fix this'' = Inr r \<and>
     clarity_score (metrics r) = JFloat (calculate_clarity_score ''fix this'') \<and>
     specificity_score (metrics r) = JFloat (calculate_specificity_score ''fix this'') \<and>
     context_score (metrics r) = JFloat (calculate_context_score ''fix this'') \<and>
     constraint_score (metrics r) = JFloat (calculate_constraint_score ''fix this'') \<and>
     goal_orientation_score (metrics r) = JFloat (calculate_goal_score ''fix this'') \<and>
     is_number (overall_score (metrics r)) \<and>
     num_val (overall_score (metrics r)) =
       py_round1 ((num_val (clarity_score (metrics r)) + num_val (specificity_score (metrics r)) +
                   num_val (context_score (metrics r)) + num_val (constraint_score (metrics r)) +
                   num_val (goal_orientation_score (metrics r))) / 5) \<and>
     1 \<le> num_val (overall_score (metrics r)) \<and> num_val (overall_score (metrics r)) \<le> 10)"
  using heuristic_overall_score [OF failing_service_falls_back [of "\<lambda>text. None" "''fix this''"]]
    failing_service_falls_back [of "\<lambda>text. None" "''fix this''"]
  by (rule conjI [rotated])

section \<open>The validator\<close>

lemma all_in_obj: "all_in ks (JObj items) = Inr (set ks \<subseteq> set (map fst items))"
  by (induction ks) simp_all

lemma map_of_dict_set: "map_of (dict_set k v items) = (map_of items)(k \<mapsto> v)"
  by (induction items) (auto simp: fun_eq_iff)

lemma dict_set_same: "map_of items k = Some v \<Longrightarrow> dict_set k v items = items"
  by (induction items) (auto split: if_splits)

lemma check_scores_verdict:
  "fst (check_scores rest scores) =
     list_all (\<lambda>item. score_in_range
        (case unwrap_single (snd item) of Some x \<Rightarrow> x | None \<Rightarrow> snd item)) rest"
proof (induction rest arbitrary: scores)
  case Nil
  show ?case by simp
next
  case (Cons item rest)
  show ?case
    by (cases "unwrap_single (snd item)") (simp_all add: check_score_def Cons.IH)
qed

lemma check_scores_invariant:
  assumes "check_scores rest scores = (True, scores')"
    and "\<And>k v. map_of scores k = Some v \<Longrightarrow> score_in_range v \<or> (k, v) \<in> set rest"
  shows "(\<forall>k v. map_of scores' k = Some v \<longrightarrow> score_in_range v) \<and>
         dom (map_of scores) \<subseteq> dom (map_of scores')"
  using assms
proof (induction rest arbitrary: scores)
  case Nil
  then show ?case by auto
next
  case (Cons item rest)
  obtain ok s1 where step: "check_score (fst item) (snd item) scores = (ok, s1)"
    by (cases "check_score (fst item) (snd item) scores")
  with Cons.prems(1) have ok: "ok" and rest: "check_scores rest s1 = (True, scores')"
    by (auto split: if_splits)
  have inv: "score_in_range v \<or> (k, v) \<in> set rest" if "map_of s1 k = Some v" for k v
  proof (cases "unwrap_single (snd item)")
    case None
    with step ok have s1: "s1 = scores" and good: "score_in_range (snd item)"
      by (simp_all add: check_score_def)
    from that s1 have "score_in_range v \<or> (k, v) \<in> set (item # rest)"
      using Cons.prems(2) by simp
    with good show ?thesis by auto
  next
    case (Some x)
    with step ok have s1: "s1 = dict_set (fst item) x scores" and good: "score_in_range x"
      by (simp_all add: check_score_def)
    show ?thesis
    proof (cases "k = fst item")
      case True
      with that s1 have "v = x" by (simp add: map_of_dict_set)
      with good show ?thesis by simp
    next
      case False
      with that s1 have "map_of scores k = Some v" by (simp add: map_of_dict_set)
      then have "score_in_range v \<or> (k, v) \<in> set (item # rest)" by (rule Cons.prems(2))
      with False show ?thesis by auto
    qed
  qed
  have dom1: "dom (map_of scores) \<subseteq> dom (map_of s1)"
    using step by (auto simp: check_score_def map_of_dict_set split: option.splits)
  from Cons.IH [OF rest inv] dom1 show ?case by blast
qed

lemma check_scores_all_true:
  "\<forall>item\<in>set rest. snd item = JBool True \<Longrightarrow> check_scores rest scores = (True, scores)"
  by (induction rest) (simp_all add: check_score_def score_in_range_def)

lemma validate_not_obj:
  "(\<And>entries. raw \<noteq> JObj entries) \<Longrightarrow> validate_ai_response raw \<noteq> Inr (True, raw')"
  unfolding validate_ai_response_def
  by (cases raw) (auto split: sum.splits if_splits)

lemma validate_obj:
  "validate_ai_response (JObj entries) =
     (if \<not> set required_keys \<subseteq> set (map fst entries) then Inr (False, JObj entries)
      else
        (case all_in score_keys (dict_get entries ''scores'' (JObj [])) of
           Inl e \<Rightarrow> Inl e
         | Inr has_scores \<Rightarrow>
             if \<not> has_scores then Inr (False, JObj entries)
             else
               (case all_in analysis_keys (dict_get entries ''analysis'' (JObj [])) of
                  Inl e \<Rightarrow> Inl e
                | Inr has_analysis \<Rightarrow>
                    if \<not> has_analysis then Inr (False, JObj entries)
                    else
                      (case dict_get entries ''scores'' (JObj []) of
                         JObj items \<Rightarrow>
                           (let items' = snd (check_scores items items);
                                entries' = dict_set ''scores'' (JObj items') entries
                            in Inr (fst (check_scores items items) \<and>
                                    confidence_in_range (dict_get entries' ''confidence'' (JInt 0)),
                                    JObj entries'))
                       | _ \<Rightarrow> Inl AttributeError))))"
  unfolding validate_ai_response_def all_in_obj
  by (simp add: Let_def split: sum.splits json.splits prod.splits)

lemma key_lookup: "k \<in> set (map fst items) \<Longrightarrow> \<exists>v. map_of items k = Some v"
  by (metis domD dom_map_of_conv_image_fst list.set_map)

lemma validated_shape:
  assumes "validate_ai_response raw = Inr (True, raw')"
  shows "\<exists>entries items analysis overall confidence.
           raw' = JObj entries \<and>
           map_of entries ''scores'' = Some (JObj items) \<and>
           map_of entries ''analysis'' = Some analysis \<and>
           all_in analysis_keys analysis = Inr True \<and>
           map_of items ''overall'' = Some overall \<and> score_in_range overall \<and>
           map_of entries ''confidence'' = Some confidence \<and> confidence_in_range confidence \<and>
           (\<forall>k v. map_of items k = Some v \<longrightarrow> score_in_range v)"
proof -
  obtain entries0 where raw: "raw = JObj entries0"
    using assms validate_not_obj [of raw raw'] by blast
  have v: "validate_ai_response (JObj entries0) = Inr (True, raw')"
    using assms raw by simp
  have req: "set required_keys \<subseteq> set (map fst entries0)"
    using v unfolding validate_obj by (auto split: if_splits)
  obtain items0 where scores0: "dict_get entries0 ''scores'' (JObj []) = JObj items0"
    using v req unfolding validate_obj
    by (cases "dict_get entries0 ''scores'' (JObj [])") (auto split: sum.splits if_splits)
  have sk: "set score_keys \<subseteq> set (map fst items0)"
    using v req scores0 unfolding validate_obj by (auto simp: all_in_obj split: if_splits)
  have an: "all_in analysis_keys (dict_get entries0 ''analysis'' (JObj [])) = Inr True"
    using v req scores0 sk unfolding validate_obj
    by (auto simp: all_in_obj split: sum.splits if_splits)
  obtain items where loop: "check_scores items0 items0 = (True, items)"
    and raw': "raw' = JObj (dict_set ''scores'' (JObj items) entries0)"
    and conf: "confidence_in_range
                 (dict_get (dict_set ''scores'' (JObj items) entries0) ''confidence'' (JInt 0))"
    using v req scores0 sk an unfolding validate_obj
    by (cases "check_scores items0 items0") (auto simp: all_in_obj Let_def)
  let ?entries = "dict_set ''scores'' (JObj items) entries0"
  have m: "map_of ?entries = (map_of entries0)(''scores'' \<mapsto> JObj items)"
    by (rule map_of_dict_set)
  obtain analysis where a0: "map_of entries0 ''analysis'' = Some analysis"
    using req key_lookup [of "''analysis''" entries0] by (auto simp: required_keys_def)
  obtain confidence where c0: "map_of entries0 ''confidence'' = Some confidence"
    using req key_lookup [of "''confidence''" entries0] by (auto simp: required_keys_def)
  have inv: "(\<forall>k v. map_of items k = Some v \<longrightarrow> score_in_range v) \<and>
             dom (map_of items0) \<subseteq> dom (map_of items)"
    using loop by (rule check_scores_invariant) (auto dest: map_of_SomeD)
  have "''overall'' \<in> dom (map_of items0)"
    using sk key_lookup [of "''overall''" items0] by (auto simp: score_keys_def)
  with inv obtain overall where o: "map_of items ''overall'' = Some overall"
    by blast
  with inv have o_ok: "score_in_range overall" by blast
  have "map_of ?entries ''scores'' = Some (JObj items)" by (simp add: m)
  moreover have "map_of ?entries ''analysis'' = Some analysis" by (simp add: m a0)
  moreover have "all_in analysis_keys analysis = Inr True"
    using an by (simp add: dict_get_def a0)
  moreover have "map_of ?entries ''confidence'' = Some confidence" by (simp add: m c0)
  moreover have "confidence_in_range confidence"
    using conf by (simp add: dict_get_def m c0)
  ultimately show ?thesis using raw' o o_ok inv by blast
qed

lemma plausibility_of_entries:
  assumes "map_of entries ''scores'' = Some (JObj items)"
    and "map_of items ''overall'' = Some overall"
    and "map_of entries ''confidence'' = Some confidence"
    and "is_number overall" and "is_number confidence"
  shows "is_valid_ai_analysis (JObj entries) =
           Inr (\<not> ((num_val overall = 5 \<or>
                     (55 / 10 \<le> num_val overall \<and> num_val overall \<le> 57 / 10)) \<and>
                    num_val confidence = 7 / 10))"
proof -
  have "entries \<noteq> []" using assms(1) by auto
  then show ?thesis
    using assms
    by (simp add: is_valid_ai_analysis_def dict_get_def suspicious_overall_def py_eq_num_def)
qed

section \<open>The arbiter\<close>

lemma get_ai_parsed:
  assumes "gen (meta_prompt_comprehensive @ prompt) = Inr raw"
    and "loads (extract_json (py_strip (strip_fences raw))) = Some parsed"
  shows "get_ai_analysis gen loads prompt ''comprehensive'' =
           (case validate_ai_response parsed of
              Inr (True, parsed') \<Rightarrow> Some parsed'
            | _ \<Rightarrow> None)"
proof (cases "\<exists>entries. parsed = JObj entries")
  case True
  then show ?thesis
    using assms
    by (auto simp: get_ai_analysis_def meta_prompts_comprehensive Let_def
          split: sum.splits bool.splits)
next
  case False
  then have "\<And>entries. parsed \<noteq> JObj entries" by blast
  then have "\<And>parsed'. validate_ai_response parsed \<noteq> Inr (True, parsed')"
    by (rule validate_not_obj)
  then have "(case validate_ai_response parsed of
              Inr (True, parsed') \<Rightarrow> Some parsed'
            | _ \<Rightarrow> None) = None"
    by (auto split: sum.splits bool.splits)
  moreover have "get_ai_analysis gen loads prompt ''comprehensive'' = None"
    using assms False
    by (cases parsed) (simp_all add: get_ai_analysis_def meta_prompts_comprehensive Let_def)
  ultimately show ?thesis by simp
qed

lemma unparseable_text:
  assumes "gen (meta_prompt_comprehensive @ prompt) = Inr raw"
    and "loads (extract_json (py_strip (strip_fences raw))) = None"
  shows "get_ai_analysis gen loads prompt ''comprehensive'' = None"
  using assms by (simp add: get_ai_analysis_def meta_prompts_comprehensive Let_def)

lemma get_ai_validated:
  assumes "get_ai_analysis gen loads prompt ''comprehensive'' = Some a"
  shows "\<exists>parsed. validate_ai_response parsed = Inr (True, a)"
proof -
  obtain raw where raw: "gen (meta_prompt_comprehensive @ prompt) = Inr raw"
    using assms generation_raises [of gen prompt _ loads]
    by (cases "gen (meta_prompt_comprehensive @ prompt)") auto
  obtain parsed where parsed: "loads (extract_json (py_strip (strip_fences raw))) = Some parsed"
    using assms unparseable_text [of gen prompt raw loads] raw
    by (cases "loads (extract_json (py_strip (strip_fences raw)))") auto
  have "get_ai_analysis gen loads prompt ''comprehensive'' =
           (case validate_ai_response parsed of
              Inr (True, parsed') \<Rightarrow> Some parsed'
            | _ \<Rightarrow> None)"
    using raw parsed by (rule get_ai_parsed)
  with assms have "validate_ai_response parsed = Inr (True, a)"
    by (auto split: sum.splits bool.splits)
  then show ?thesis ..
qed

text \<open>
  The failures that the code itself recognises do end in the fallback: the generation
  capability raises; its text does not parse; the validator of the code returns false or
  raises, or the parsed structure is no dictionary; the validated structure fails the
  plausibility check. A response that violates the schema and that the validator lets
  through is not among them.
\<close>

lemma recognised_failures_fall_back:
  assumes "(\<exists>e. gen (meta_prompt_comprehensive @ prompt) = Inl e) \<or>
     (\<exists>raw. gen (meta_prompt_comprehensive @ prompt) = Inr raw \<and>
        loads (extract_json (py_strip (strip_fences raw))) = None) \<or>
     (\<exists>raw parsed. gen (meta_prompt_comprehensive @ prompt) = Inr raw \<and>
        loads (extract_json (py_strip (strip_fences raw))) = Some parsed \<and>
        (\<forall>parsed'. validate_ai_response parsed \<noteq> Inr (True, parsed'))) \<or>
     (\<exists>raw parsed parsed'. gen (meta_prompt_comprehensive @ prompt) = Inr raw \<and>
        loads (extract_json (py_strip (strip_fences raw))) = Some parsed \<and>
        validate_ai_response parsed = Inr (True, parsed') \<and>
        is_valid_ai_analysis parsed' = Inr False)"
  shows "comprehensive_analysis gen loads prompt
           = combine_results prompt (rule_based_analysis prompt) \<and>
         (\<exists>r. comprehensive_analysis gen loads prompt = Inr r \<and>
              confidence_level r = JFloat (7 / 10))"
proof -
  have fb: "fallback_condition (get_ai_analysis gen loads prompt ''comprehensive'') = Inr True"
    using assms
  proof (elim disjE exE conjE)
    fix e
    assume "gen (meta_prompt_comprehensive @ prompt) = Inl e"
    then show ?thesis by (simp add: generation_raises fallback_condition_def)
  next
    fix raw
    assume "gen (meta_prompt_comprehensive @ prompt) = Inr raw"
      and "loads (extract_json (py_strip (strip_fences raw))) = None"
    then show ?thesis by (simp add: unparseable_text fallback_condition_def)
  next
    fix raw parsed
    assume "gen (meta_prompt_comprehensive @ prompt) = Inr raw"
      and "loads (extract_json (py_strip (strip_fences raw))) = Some parsed"
      and "\<forall>parsed'. validate_ai_response parsed \<noteq> Inr (True, parsed')"
    then show ?thesis
      by (auto simp: get_ai_parsed fallback_condition_def split: sum.splits bool.splits)
  next
    fix raw parsed parsed'
    assume "gen (meta_prompt_comprehensive @ prompt) = Inr raw"
      and "loads (extract_json (py_strip (strip_fences raw))) = Some parsed"
      and "validate_ai_response parsed = Inr (True, parsed')"
      and "is_valid_ai_analysis parsed' = Inr False"
    then show ?thesis
      by (simp add: get_ai_parsed fallback_condition_def)
  qed
  then have "comprehensive_analysis gen loads prompt
           = combine_results prompt (rule_based_analysis prompt)"
    by (rule fallback_result)
  then show ?thesis by (simp add: combine_rule_based)
qed

lemma validate_sample:
  assumes "score_in_range overall" and "unwrap_single overall = None"
    and "all_in analysis_keys analysis = Inr True" and "confidence_in_range confidence"
  shows "validate_ai_response (sample_response (JInt 7) overall analysis confidence) =
           Inr (True, sample_response (JInt 7) overall analysis confidence)"
  using assms
  by (simp add: sample_response_def validate_obj required_keys_def score_keys_def dict_get_def
        all_in_obj check_score_def score_in_range_def Let_def)

lemma sample_analysis_keys: "all_in analysis_keys (sample_analysis xs) = Inr True"
  by (simp add: sample_analysis_def analysis_keys_def)

lemma validate_scenario: "validate_ai_response scenario_response = Inr (True, scenario_unwrapped)"
  by (simp add: scenario_response_def scenario_unwrapped_def sample_response_def
        sample_analysis_def validate_obj required_keys_def
        score_keys_def analysis_keys_def dict_get_def all_in_obj check_score_def
        score_in_range_def confidence_in_range_def Let_def)

lemma validate_empty: "validate_ai_response (JObj []) = Inr (False, JObj [])"
  by (simp add: validate_obj required_keys_def)

lemma validate_ordinary: "validate_ai_response ordinary_response = Inr (True, ordinary_response)"
  unfolding ordinary_response_def
  by (rule validate_sample)
     (simp_all add: score_in_range_def confidence_in_range_def sample_analysis_keys)

lemma validate_disguised:
  "validate_ai_response disguised_response = Inr (True, disguised_response)"
  unfolding disguised_response_def
  by (rule validate_sample)
     (simp_all add: score_in_range_def confidence_in_range_def sample_analysis_keys)

lemma validate_modest: "validate_ai_response modest_response = Inr (True, modest_response)"
  unfolding modest_response_def
  by (rule validate_sample)
     (simp_all add: score_in_range_def confidence_in_range_def sample_analysis_keys)

lemma validate_generous: "validate_ai_response generous_response = Inr (True, generous_response)"
  unfolding generous_response_def
  by (rule validate_sample)
     (simp_all add: score_in_range_def confidence_in_range_def sample_analysis_keys)

lemma validate_prose: "validate_ai_response prose_response = Inr (True, prose_response)"
  unfolding prose_response_def
  by (rule validate_sample)
     (simp_all add: score_in_range_def confidence_in_range_def analysis_keys_def)

lemma plausible_samples:
  "is_valid_ai_analysis ordinary_response = Inr True"
  "is_valid_ai_analysis disguised_response = Inr False"
  "is_valid_ai_analysis modest_response = Inr True"
  "is_valid_ai_analysis generous_response = Inr True"
  "is_valid_ai_analysis prose_response = Inr True"
  "is_valid_ai_analysis scenario_unwrapped = Inr True"
  by (simp_all add: ordinary_response_def disguised_response_def modest_response_def
        generous_response_def prose_response_def scenario_unwrapped_def sample_response_def
        is_valid_ai_analysis_def dict_get_def suspicious_overall_def py_eq_num_def)

lemma accepted_response:
  assumes "validate_ai_response parsed = Inr (True, a)"
    and "is_valid_ai_analysis a = Inr True"
  shows "get_ai_analysis (\<lambda>text. Inr raw) (\<lambda>text. Some parsed) prompt ''comprehensive'' = Some a"
    and "fallback_condition
           (get_ai_analysis (\<lambda>text. Inr raw) (\<lambda>text. Some parsed) prompt ''comprehensive'')
         = Inr False"
    and "comprehensive_analysis (\<lambda>text. Inr raw) (\<lambda>text. Some parsed) prompt
         = combine_results prompt a"
proof -
  show g: "get_ai_analysis (\<lambda>text. Inr raw) (\<lambda>text. Some parsed) prompt ''comprehensive'' = Some a"
    using assms(1) by (simp add: get_ai_parsed)
  have "truthy a"
    using validated_shape [OF assms(1)] by auto
  then show f: "fallback_condition
           (get_ai_analysis (\<lambda>text. Inr raw) (\<lambda>text. Some parsed) prompt ''comprehensive'')
         = Inr False"
    using assms(2) by (simp add: g fallback_condition_def)
  show "comprehensive_analysis (\<lambda>text. Inr raw) (\<lambda>text. Some parsed) prompt
         = combine_results prompt a"
    unfolding comprehensive_analysis_def Let_def f by (simp add: g)
qed

text \<open>
  Claim C4. After the validator has accepted a structure, the plausibility check on it (the
  validator has unwrapped the scores in place) raises nothing, and it returns false exactly
  when the overall score is 5.0 or lies between 5.5 and 5.7 and the confidence is 0.7; with
  overall 6.2 and confidence 0.85 it returns true.
\<close>

theorem plausibility_exact:
  assumes "validate_ai_response raw = Inr (True, raw')"
  shows "\<exists>entries items overall confidence.
           raw' = JObj entries \<and>
           map_of entries ''scores'' = Some (JObj items) \<and>
           map_of items ''overall'' = Some overall \<and>
           map_of entries ''confidence'' = Some confidence \<and>
           is_number overall \<and> is_number confidence \<and>
           is_valid_ai_analysis raw' =
             Inr (\<not> ((num_val overall = 5 \<or>
                       (55 / 10 \<le> num_val overall \<and> num_val overall \<le> 57 / 10)) \<and>
                      num_val confidence = 7 / 10))"
proof -
  from validated_shape [OF assms] obtain entries items analysis overall confidence where
    shape: "raw' = JObj entries" "map_of entries ''scores'' = Some (JObj items)"
      "map_of items ''overall'' = Some overall" "score_in_range overall"
      "map_of entries ''confidence'' = Some confidence" "confidence_in_range confidence"
    by blast
  have numbers: "is_number overall" "is_number confidence"
    using shape(4,6) by (simp_all add: score_in_range_def confidence_in_range_def)
  have "is_valid_ai_analysis (JObj entries) =
           Inr (\<not> ((num_val overall = 5 \<or>
                     (55 / 10 \<le> num_val overall \<and> num_val overall \<le> 57 / 10)) \<and>
                    num_val confidence = 7 / 10))"
    using shape(2,3,5) numbers by (rule plausibility_of_entries)
  then show ?thesis using shape numbers by blast
qed

theorem plausibility_exact_witness:
  "is_valid_ai_analysis ordinary_response = Inr True \<and>
   is_valid_ai_analysis disguised_response = Inr False"
  using plausibility_exact [OF validate_ordinary] plausibility_exact [OF validate_disguised]
  by (auto simp: ordinary_response_def disguised_response_def sample_response_def)

lemma recognised_failures_examples:
  "comprehensive_analysis (\<lambda>text. Inl ServiceError) (\<lambda>text. None) ''fix this''
     = combine_results ''fix this'' (rule_based_analysis ''fix this'') \<and>
   comprehensive_analysis (\<lambda>text. Inr ''I cannot answer that.'') (\<lambda>text. None) ''fix this''
     = combine_results ''fix this'' (rule_based_analysis ''fix this'') \<and>
   comprehensive_analysis (\<lambda>text. Inr ''{}'') (\<lambda>text. Some (JObj [])) ''fix this''
     = combine_results ''fix this'' (rule_based_analysis ''fix this'') \<and>
   comprehensive_analysis (\<lambda>text. Inr ''{}'') (\<lambda>text. Some disguised_response) ''fix this''
     = combine_results ''fix this'' (rule_based_analysis ''fix this'')"
proof -
  have "comprehensive_analysis (\<lambda>text. Inl ServiceError) (\<lambda>text. None) ''fix this''
     = combine_results ''fix this'' (rule_based_analysis ''fix this'')"
    using recognised_failures_fall_back [of "\<lambda>text. Inl ServiceError" "''fix this''" "\<lambda>text. None"]
    by simp
  moreover have
    "comprehensive_analysis (\<lambda>text. Inr ''I cannot answer that.'') (\<lambda>text. None) ''fix this''
     = combine_results ''fix this'' (rule_based_analysis ''fix this'')"
    using recognised_failures_fall_back [of "\<lambda>text. Inr ''I cannot answer that.''" "''fix this''"
        "\<lambda>text. None"]
    by simp
  moreover have
    "comprehensive_analysis (\<lambda>text. Inr ''{}'') (\<lambda>text. Some (JObj [])) ''fix this''
     = combine_results ''fix this'' (rule_based_analysis ''fix this'')"
    using recognised_failures_fall_back [of "\<lambda>text. Inr ''{}''" "''fix this''" "\<lambda>text. Some (JObj [])"]
    by (simp add: validate_empty)
  moreover have
    "comprehensive_analysis (\<lambda>text. Inr ''{}'') (\<lambda>text. Some disguised_response) ''fix this''
     = combine_results ''fix this'' (rule_based_analysis ''fix this'')"
    using recognised_failures_fall_back [of "\<lambda>text. Inr ''{}''" "''fix this''"
        "\<lambda>text. Some disguised_response"]
    by (simp add: validate_disguised plausible_samples)
  ultimately show ?thesis by (intro conjI)
qed

text \<open>
  Claim C10. A response with every required key, in which every score is the boolean
  \<^verbatim>\<open>true\<close> and the confidence is a number between 0 and 1, passes the validator:
  \<^verbatim>\<open>isinstance(True, (int, float))\<close> holds and \<^verbatim>\<open>True\<close> counts as 1.
\<close>

theorem booleans_pass_validation:
  assumes "set required_keys \<subseteq> set (map fst entries)"
    and "map_of entries ''scores'' = Some (JObj items)"
    and "set score_keys \<subseteq> set (map fst items)"
    and "map_of entries ''analysis'' = Some (JObj analysis_items)"
    and "set analysis_keys \<subseteq> set (map fst analysis_items)"
    and "\<forall>item\<in>set items. snd item = JBool True"
    and "map_of entries ''confidence'' = Some confidence"
    and "is_number confidence" and "0 \<le> num_val confidence" and "num_val confidence \<le> 1"
  shows "validate_ai_response (JObj entries) = Inr (True, JObj entries)"
proof -
  have loop: "check_scores items items = (True, items)"
    using assms(6) by (rule check_scores_all_true)
  have same: "dict_set ''scores'' (JObj items) entries = entries"
    using assms(2) by (rule dict_set_same)
  show ?thesis
    unfolding validate_obj
    using assms(1,3,5,8,9,10)
    by (simp add: dict_get_def assms(2,4,7) all_in_obj loop same confidence_in_range_def)
qed

theorem booleans_pass_validation_witness:
  "validate_ai_response boolean_response = Inr (True, boolean_response)"
  unfolding boolean_response_def sample_analysis_def
  by (rule booleans_pass_validation [where items = boolean_scores
           and analysis_items = "[(''strengths'', JList [JStr ''x'']),
                                  (''weaknesses'', JList [JStr ''y'']),
                                  (''suggestions'', JList [JStr ''z''])]"
           and confidence = "JFloat (9 / 10)"])
     (simp_all add: required_keys_def score_keys_def analysis_keys_def boolean_scores_def)

text \<open>
  Claim C3 fails on the code. The validator tests \<^verbatim>\<open>key in analysis\<close> without asking
  that the analysis is a dictionary, so a sentence that mentions the three names passes; the
  arbiter then calls \<^verbatim>\<open>.get\<close> on the sentence and raises \<^verbatim>\<open>AttributeError\<close>.
\<close>

theorem validator_accepts_prose_analysis:
  "validate_ai_response prose_response = Inr (True, prose_response) \<and>
   comprehensive_analysis (\<lambda>text. Inr ''{}'') (\<lambda>text. Some prose_response) ''fix this''
     = Inl AttributeError"
proof -
  have "combine_results ''fix this'' prose_response = Inl AttributeError"
    by (simp add: combine_results_def prose_response_def sample_response_def dict_get_def)
  then show ?thesis
    by (simp add: validate_prose accepted_response(3) [OF validate_prose plausible_samples(5)])
qed

lemma validate_listed: "validate_ai_response listed_response = Inr (True, listed_response)"
  unfolding listed_response_def
  by (rule validate_sample)
     (simp_all add: score_in_range_def confidence_in_range_def analysis_keys_def)

lemma plausible_listed: "is_valid_ai_analysis listed_response = Inr True"
  by (simp add: listed_response_def sample_response_def is_valid_ai_analysis_def dict_get_def
        suspicious_overall_def py_eq_num_def)

lemma combine_without_dictionary:
  "combine_results prompt prose_response = Inl AttributeError"
  "combine_results prompt listed_response = Inl AttributeError"
  by (simp_all add: combine_results_def prose_response_def listed_response_def
        sample_response_def dict_get_def)

text \<open>
  Claim C1 fails on the code. The claim lets no exception out of the arbiter, whatever the
  generation capability returns, a violation of the schema included. A response whose
  analysis is a sentence, or a list, that holds the three names is a violation of the schema
  that the validator of the code accepts (the defect of claim C3) and that is plausible; for
  every prompt and every returned text the arbiter takes the external path and raises
  \<^verbatim>\<open>AttributeError\<close> to its caller, outside every \<^verbatim>\<open>try\<close>.
\<close>

theorem arbiter_raises_on_accepted_schema_violation:
  "validate_ai_response prose_response = Inr (True, prose_response) \<and>
   is_valid_ai_analysis prose_response = Inr True \<and>
   comprehensive_analysis (\<lambda>text. Inr raw) (\<lambda>text. Some prose_response) prompt
     = Inl AttributeError \<and>
   validate_ai_response listed_response = Inr (True, listed_response) \<and>
   is_valid_ai_analysis listed_response = Inr True \<and>
   comprehensive_analysis (\<lambda>text. Inr raw) (\<lambda>text. Some listed_response) prompt
     = Inl AttributeError"
proof -
  have "comprehensive_analysis (\<lambda>text. Inr raw) (\<lambda>text. Some prose_response) prompt
     = combine_results prompt prose_response"
    using validate_prose plausible_samples(5) by (rule accepted_response(3))
  moreover have "comprehensive_analysis (\<lambda>text. Inr raw) (\<lambda>text. Some listed_response) prompt
     = combine_results prompt listed_response"
    using validate_listed plausible_listed by (rule accepted_response(3))
  ultimately show ?thesis
    by (simp add: combine_without_dictionary validate_prose validate_listed
          plausible_samples(5) plausible_listed)
qed

section \<open>Confidence and feedback lists of the result\<close>

lemma take_five: "length (take 5 xs) \<le> 5"
  by simp

lemma strengths_bounded: "length (identify_strengths p c s x k g) \<le> 5"
  unfolding identify_strengths_def Let_def by (rule take_five)

lemma weaknesses_bounded: "length (identify_weaknesses p c s x k g) \<le> 5"
  unfolding identify_weaknesses_def Let_def by (rule take_five)

lemma suggestions_bounded: "length (generate_suggestions p ws) \<le> 5"
  unfolding generate_suggestions_def Let_def by (rule take_five)

lemma fallback_is_decided:
  assumes "comprehensive_analysis gen loads prompt = Inr r"
  shows "\<exists>b. fallback_condition (get_ai_analysis gen loads prompt ''comprehensive'') = Inr b"
  using assms unfolding comprehensive_analysis_def Let_def
  by (cases "fallback_condition (get_ai_analysis gen loads prompt ''comprehensive'')") simp_all

lemma accepted_result:
  assumes fb: "fallback_condition (get_ai_analysis gen loads prompt ''comprehensive'') = Inr False"
    and res: "comprehensive_analysis gen loads prompt = Inr r"
  shows "\<exists>entries items analysis_items overall confidence.
           get_ai_analysis gen loads prompt ''comprehensive'' = Some (JObj entries) \<and>
           map_of entries ''scores'' = Some (JObj items) \<and>
           map_of entries ''analysis'' = Some (JObj analysis_items) \<and>
           map_of items ''overall'' = Some overall \<and>
           map_of entries ''confidence'' = Some confidence \<and>
           is_number overall \<and> is_number confidence \<and>
           \<not> ((num_val overall = 5 \<or>
                (55 / 10 \<le> num_val overall \<and> num_val overall \<le> 57 / 10)) \<and>
               num_val confidence = 7 / 10) \<and>
           overall_score (metrics r) = overall \<and>
           confidence_level r = confidence \<and>
           map_of analysis_items ''strengths'' = Some (strengths r) \<and>
           map_of analysis_items ''weaknesses'' = Some (weaknesses r) \<and>
           map_of analysis_items ''suggestions'' = Some (suggestions r)"
proof -
  obtain a where a: "get_ai_analysis gen loads prompt ''comprehensive'' = Some a"
    using fb by (cases "get_ai_analysis gen loads prompt ''comprehensive''")
      (simp_all add: fallback_condition_def)
  have valid: "is_valid_ai_analysis a = Inr True"
    using fb unfolding a fallback_condition_def
    by (auto split: if_splits sum.splits)
  obtain parsed where parsed: "validate_ai_response parsed = Inr (True, a)"
    using get_ai_validated [OF a] by blast
  from validated_shape [OF parsed] obtain entries items analysis overall confidence where
    s: "a = JObj entries" "map_of entries ''scores'' = Some (JObj items)"
       "map_of entries ''analysis'' = Some analysis"
       "all_in analysis_keys analysis = Inr True"
       "map_of items ''overall'' = Some overall" "score_in_range overall"
       "map_of entries ''confidence'' = Some confidence" "confidence_in_range confidence"
    by blast
  have n: "is_number overall" "is_number confidence"
    using s(6,8) by (simp_all add: score_in_range_def confidence_in_range_def)
  from plausibility_of_entries [OF s(2,5,7) n] s(1) valid
  have plausible: "\<not> ((num_val overall = 5 \<or>
                (55 / 10 \<le> num_val overall \<and> num_val overall \<le> 57 / 10)) \<and>
               num_val confidence = 7 / 10)"
    by auto
  have comb: "combine_results prompt (JObj entries) = Inr r"
    using res fb unfolding comprehensive_analysis_def Let_def by (simp add: a s(1))
  then obtain analysis_items where an: "analysis = JObj analysis_items"
    by (cases analysis) (simp_all add: combine_results_def dict_get_def s(2,3))
  have keys: "set analysis_keys \<subseteq> set (map fst analysis_items)"
    using s(4) by (simp add: an all_in_obj)
  obtain st wk sg where lists:
    "map_of analysis_items ''strengths'' = Some st"
    "map_of analysis_items ''weaknesses'' = Some wk"
    "map_of analysis_items ''suggestions'' = Some sg"
    using keys key_lookup [of "''strengths''" analysis_items]
      key_lookup [of "''weaknesses''" analysis_items]
      key_lookup [of "''suggestions''" analysis_items]
    by (auto simp: analysis_keys_def)
  have r: "overall_score (metrics r) = overall" "confidence_level r = confidence"
    "strengths r = st" "weaknesses r = wk" "suggestions r = sg"
    using comb by (auto simp: combine_results_def dict_get_def s(2,3,5,7) an lists)
  show ?thesis
    using a s(1,2,3,5,7) an n plausible r lists by blast
qed

lemma modest_result:
  "\<exists>r. combine_results ''fix this'' modest_response = Inr r \<and>
        confidence_level r = JFloat (7 / 10) \<and> overall_score (metrics r) = JInt 8"
  by (simp add: combine_results_def modest_response_def sample_response_def
        sample_analysis_def dict_get_def)

text \<open>
  Claim C5, as stated, fails in one direction: an external response with overall score 8
  and confidence 0.7 is validated and plausible, the arbiter accepts it, and the result has
  confidence 0.7 without coming from the heuristic analyzer.
\<close>

theorem confidence_of_accepted_response_counterexample:
  "fallback_condition
     (get_ai_analysis (\<lambda>text. Inr ''{}'') (\<lambda>text. Some modest_response) ''fix this''
        ''comprehensive'') = Inr False \<and>
   (\<exists>r. comprehensive_analysis (\<lambda>text. Inr ''{}'') (\<lambda>text. Some modest_response) ''fix this''
          = Inr r \<and> confidence_level r = JFloat (7 / 10))"
  using modest_result
  by (auto simp only: accepted_response(2,3) [OF validate_modest plausible_samples(3)])

text \<open>
  Claim C5, amended. The heuristic fallback always yields the confidence 0.7, so a result
  whose confidence is not 0.7 comes from an accepted external analysis. An accepted external
  analysis may carry the confidence 0.7 itself; its overall score is then neither 5.0 nor
  between 5.5 and 5.7.
\<close>

theorem confidence_and_origin:
  assumes "comprehensive_analysis gen loads prompt = Inr r"
  shows
    "(fallback_condition (get_ai_analysis gen loads prompt ''comprehensive'') = Inr True \<longrightarrow>
        confidence_level r = JFloat (7 / 10)) \<and>
     (\<not> py_eq_num (confidence_level r) (7 / 10) \<longrightarrow>
        fallback_condition (get_ai_analysis gen loads prompt ''comprehensive'') = Inr False) \<and>
     (fallback_condition (get_ai_analysis gen loads prompt ''comprehensive'') = Inr False \<and>
      py_eq_num (confidence_level r) (7 / 10) \<longrightarrow>
        is_number (overall_score (metrics r)) \<and>
        num_val (overall_score (metrics r)) \<noteq> 5 \<and>
        \<not> (55 / 10 \<le> num_val (overall_score (metrics r)) \<and>
           num_val (overall_score (metrics r)) \<le> 57 / 10))"
proof -
  let ?fb = "fallback_condition (get_ai_analysis gen loads prompt ''comprehensive'')"
  have heuristic: "confidence_level r = JFloat (7 / 10)" if "?fb = Inr True"
  proof -
    have "comprehensive_analysis gen loads prompt
            = combine_results prompt (rule_based_analysis prompt)"
      using that by (rule fallback_result)
    with assms show ?thesis by (auto simp: combine_rule_based)
  qed
  obtain b where b: "?fb = Inr b"
    using fallback_is_decided [OF assms] by blast
  have external: "?fb = Inr False" if "\<not> py_eq_num (confidence_level r) (7 / 10)"
  proof (cases b)
    case True
    with b heuristic have "confidence_level r = JFloat (7 / 10)" by simp
    with that show ?thesis by (simp add: py_eq_num_def)
  next
    case False
    with b show ?thesis by simp
  qed
  have accepted: "is_number (overall_score (metrics r)) \<and>
        num_val (overall_score (metrics r)) \<noteq> 5 \<and>
        \<not> (55 / 10 \<le> num_val (overall_score (metrics r)) \<and>
           num_val (overall_score (metrics r)) \<le> 57 / 10)"
    if "?fb = Inr False" and "py_eq_num (confidence_level r) (7 / 10)"
    using accepted_result [OF that(1) assms] that(2) by (auto simp: py_eq_num_def)
  show ?thesis using heuristic external accepted by blast
qed

lemma scenario_result:
  "\<exists>r. combine_results ''fix this'' scenario_unwrapped = Inr r \<and>
        confidence_level r = JFloat (9 / 10) \<and> specificity_score (metrics r) = JInt 7"
  by (simp add: combine_results_def scenario_unwrapped_def sample_response_def
        sample_analysis_def dict_get_def)

theorem confidence_and_origin_witness:
  "(\<exists>r. comprehensive_analysis (\<lambda>text. Inl ServiceError) (\<lambda>text. None) ''fix this'' = Inr r \<and>
        confidence_level r = JFloat (7 / 10)) \<and>
   (\<exists>r. comprehensive_analysis (\<lambda>text. Inr ''{}'') (\<lambda>text. Some scenario_response) ''fix this''
          = Inr r \<and>
        confidence_level r = JFloat (9 / 10) \<and>
        fallback_condition
          (get_ai_analysis (\<lambda>text. Inr ''{}'') (\<lambda>text. Some scenario_response) ''fix this''
             ''comprehensive'') = Inr False) \<and>
   (\<exists>r. comprehensive_analysis (\<lambda>text. Inr ''{}'') (\<lambda>text. Some modest_response) ''fix this''
          = Inr r \<and>
        py_eq_num (confidence_level r) (7 / 10) \<and>
        num_val (overall_score (metrics r)) \<noteq> 5 \<and>
        \<not> (55 / 10 \<le> num_val (overall_score (metrics r)) \<and>
           num_val (overall_score (metrics r)) \<le> 57 / 10))"
proof (intro conjI)
  obtain r where r: "comprehensive_analysis (\<lambda>text. Inl ServiceError) (\<lambda>text. None) ''fix this''
      = Inr r"
    by (simp add: fallback_result [OF failing_service_falls_back] combine_rule_based)
  from confidence_and_origin [OF r] failing_service_falls_back
  have "confidence_level r = JFloat (7 / 10)" by blast
  with r show "\<exists>r. comprehensive_analysis (\<lambda>text. Inl ServiceError) (\<lambda>text. None) ''fix this''
      = Inr r \<and> confidence_level r = JFloat (7 / 10)"
    by blast
next
  obtain r where r: "comprehensive_analysis (\<lambda>text. Inr ''{}'') (\<lambda>text. Some scenario_response)
      ''fix this'' = Inr r" and c: "confidence_level r = JFloat (9 / 10)"
    using scenario_result
    by (auto simp only: accepted_response(3) [OF validate_scenario plausible_samples(6)])
  have "\<not> py_eq_num (confidence_level r) (7 / 10)"
    by (simp add: c py_eq_num_def)
  with confidence_and_origin [OF r]
  have "fallback_condition
          (get_ai_analysis (\<lambda>text. Inr ''{}'') (\<lambda>text. Some scenario_response) ''fix this''
             ''comprehensive'') = Inr False"
    by blast
  with r c show "\<exists>r. comprehensive_analysis (\<lambda>text. Inr ''{}'') (\<lambda>text. Some scenario_response)
      ''fix this'' = Inr r \<and>
        confidence_level r = JFloat (9 / 10) \<and>
        fallback_condition
          (get_ai_analysis (\<lambda>text. Inr ''{}'') (\<lambda>text. Some scenario_response) ''fix this''
             ''comprehensive'') = Inr False"
    by blast
next
  let ?fb = "fallback_condition
     (get_ai_analysis (\<lambda>text. Inr ''{}'') (\<lambda>text. Some modest_response) ''fix this''
        ''comprehensive'')"
  have fb: "?fb = Inr False"
    by (rule accepted_response(2) [OF validate_modest plausible_samples(3)])
  obtain r where r: "comprehensive_analysis (\<lambda>text. Inr ''{}'') (\<lambda>text. Some modest_response)
      ''fix this'' = Inr r" and c: "confidence_level r = JFloat (7 / 10)"
    using modest_result
    by (auto simp only: accepted_response(3) [OF validate_modest plausible_samples(3)])
  have p: "py_eq_num (confidence_level r) (7 / 10)"
    by (simp add: c py_eq_num_def)
  from confidence_and_origin [OF r] fb p
  have "num_val (overall_score (metrics r)) \<noteq> 5 \<and>
        \<not> (55 / 10 \<le> num_val (overall_score (metrics r)) \<and>
           num_val (overall_score (metrics r)) \<le> 57 / 10)"
    by blast
  with r p show "\<exists>r. comprehensive_analysis (\<lambda>text. Inr ''{}'') (\<lambda>text. Some modest_response)
      ''fix this'' = Inr r \<and>
        py_eq_num (confidence_level r) (7 / 10) \<and>
        num_val (overall_score (metrics r)) \<noteq> 5 \<and>
        \<not> (55 / 10 \<le> num_val (overall_score (metrics r)) \<and>
           num_val (overall_score (metrics r)) \<le> 57 / 10)"
    by blast
qed

lemma generous_result:
  "\<exists>r. combine_results ''fix this'' generous_response = Inr r \<and>
        strengths r = JList [JStr ''a'', JStr ''b'', JStr ''c'', JStr ''d'', JStr ''e'', JStr ''f'']"
  by (simp add: combine_results_def generous_response_def sample_response_def
        sample_analysis_def dict_get_def)

text \<open>
  Claim C8, as stated, fails on the external path: a response with six strengths is
  validated and plausible, and the arbiter returns the six as they are.
\<close>

theorem six_strengths_counterexample:
  "fallback_condition
     (get_ai_analysis (\<lambda>text. Inr ''{}'') (\<lambda>text. Some generous_response) ''fix this''
        ''comprehensive'') = Inr False \<and>
   (\<exists>r. comprehensive_analysis (\<lambda>text. Inr ''{}'') (\<lambda>text. Some generous_response) ''fix this''
          = Inr r \<and>
        strengths r = JList [JStr ''a'', JStr ''b'', JStr ''c'', JStr ''d'', JStr ''e'', JStr ''f''])"
  using generous_result
  by (auto simp only: accepted_response(2,3) [OF validate_generous plausible_samples(4)])

text \<open>
  Claim C8, amended. When the heuristic fallback runs, the lists of strengths, weaknesses
  and suggestions hold at most 5 elements each. When an external analysis is accepted, the
  three values are those the response delivered under the three keys of its analysis,
  unchanged.
\<close>

theorem feedback_lists:
  assumes "comprehensive_analysis gen loads prompt = Inr r"
  shows
    "(fallback_condition (get_ai_analysis gen loads prompt ''comprehensive'') = Inr True \<longrightarrow>
        (\<exists>ss ws gs. strengths r = JList (map JStr ss) \<and> length ss \<le> 5 \<and>
                    weaknesses r = JList (map JStr ws) \<and> length ws \<le> 5 \<and>
                    suggestions r = JList (map JStr gs) \<and> length gs \<le> 5)) \<and>
     (fallback_condition (get_ai_analysis gen loads prompt ''comprehensive'') = Inr False \<longrightarrow>
        (\<exists>entries analysis_items.
            get_ai_analysis gen loads prompt ''comprehensive'' = Some (JObj entries) \<and>
            map_of entries ''analysis'' = Some (JObj analysis_items) \<and>
            map_of analysis_items ''strengths'' = Some (strengths r) \<and>
            map_of analysis_items ''weaknesses'' = Some (weaknesses r) \<and>
            map_of analysis_items ''suggestions'' = Some (suggestions r)))"
proof (intro conjI impI)
  assume "fallback_condition (get_ai_analysis gen loads prompt ''comprehensive'') = Inr True"
  then have "comprehensive_analysis gen loads prompt
            = combine_results prompt (rule_based_analysis prompt)"
    by (rule fallback_result)
  with assms have r: "combine_results prompt (rule_based_analysis prompt) = Inr r" by simp
  show "\<exists>ss ws gs. strengths r = JList (map JStr ss) \<and> length ss \<le> 5 \<and>
                    weaknesses r = JList (map JStr ws) \<and> length ws \<le> 5 \<and>
                    suggestions r = JList (map JStr gs) \<and> length gs \<le> 5"
    using r strengths_bounded weaknesses_bounded suggestions_bounded
    unfolding combine_rule_based by fastforce
next
  assume "fallback_condition (get_ai_analysis gen loads prompt ''comprehensive'') = Inr False"
  from accepted_result [OF this assms]
  show "\<exists>entries analysis_items.
            get_ai_analysis gen loads prompt ''comprehensive'' = Some (JObj entries) \<and>
            map_of entries ''analysis'' = Some (JObj analysis_items) \<and>
            map_of analysis_items ''strengths'' = Some (strengths r) \<and>
            map_of analysis_items ''weaknesses'' = Some (weaknesses r) \<and>
            map_of analysis_items ''suggestions'' = Some (suggestions r)"
    by blast
qed

theorem feedback_lists_witness:
  "(\<exists>r ss ws gs.
      comprehensive_analysis (\<lambda>text. Inl ServiceError) (\<lambda>text. None) ''fix this'' = Inr r \<and>
      strengths r = JList (map JStr ss) \<and> length ss \<le> 5 \<and>
      weaknesses r = JList (map JStr ws) \<and> length ws \<le> 5 \<and>
      suggestions r = JList (map JStr gs) \<and> length gs \<le> 5) \<and>
   (\<exists>r entries analysis_items.
      comprehensive_analysis (\<lambda>text. Inr ''{}'') (\<lambda>text. Some generous_response) ''fix this''
        = Inr r \<and>
      get_ai_analysis (\<lambda>text. Inr ''{}'') (\<lambda>text. Some generous_response) ''fix this''
        ''comprehensive'' = Some (JObj entries) \<and>
      map_of entries ''analysis'' = Some (JObj analysis_items) \<and>
      map_of analysis_items ''strengths'' = Some (strengths r))"
proof (rule conjI)
  obtain r where r: "comprehensive_analysis (\<lambda>text. Inl ServiceError) (\<lambda>text. None) ''fix this''
      = Inr r"
    by (simp add: fallback_result [OF failing_service_falls_back] combine_rule_based)
  from feedback_lists [OF r] failing_service_falls_back
  have "\<exists>ss ws gs. strengths r = JList (map JStr ss) \<and> length ss \<le> 5 \<and>
                    weaknesses r = JList (map JStr ws) \<and> length ws \<le> 5 \<and>
                    suggestions r = JList (map JStr gs) \<and> length gs \<le> 5"
    by blast
  with r show "\<exists>r ss ws gs.
      comprehensive_analysis (\<lambda>text. Inl ServiceError) (\<lambda>text. None) ''fix this'' = Inr r \<and>
      strengths r = JList (map JStr ss) \<and> length ss \<le> 5 \<and>
      weaknesses r = JList (map JStr ws) \<and> length ws \<le> 5 \<and>
      suggestions r = JList (map JStr gs) \<and> length gs \<le> 5"
    by blast
next
  have fb: "fallback_condition
     (get_ai_analysis (\<lambda>text. Inr ''{}'') (\<lambda>text. Some generous_response) ''fix this''
        ''comprehensive'') = Inr False"
    by (rule accepted_response(2) [OF validate_generous plausible_samples(4)])
  obtain r where r: "comprehensive_analysis (\<lambda>text. Inr ''{}'') (\<lambda>text. Some generous_response)
      ''fix this'' = Inr r"
    using generous_result
    by (auto simp only: accepted_response(3) [OF validate_generous plausible_samples(4)])
  from feedback_lists [OF r] fb
  have "\<exists>entries analysis_items.
      get_ai_analysis (\<lambda>text. Inr ''{}'') (\<lambda>text. Some generous_response) ''fix this''
        ''comprehensive'' = Some (JObj entries) \<and>
      map_of entries ''analysis'' = Some (JObj analysis_items) \<and>
      map_of analysis_items ''strengths'' = Some (strengths r)"
    by blast
  with r show "\<exists>r entries analysis_items.
      comprehensive_analysis (\<lambda>text. Inr ''{}'') (\<lambda>text. Some generous_response) ''fix this''
        = Inr r \<and>
      get_ai_analysis (\<lambda>text. Inr ''{}'') (\<lambda>text. Some generous_response) ''fix this''
        ''comprehensive'' = Some (JObj entries) \<and>
      map_of entries ''analysis'' = Some (JObj analysis_items) \<and>
      map_of analysis_items ''strengths'' = Some (strengths r)"
    by blast
qed

end
